theory Spec2Isabelle
  imports Main "HOL-Library.Sublist"
begin

section \<open>JavaScript values, strings and numbers\<close>

text \<open>
  The values that travel through the query builder (\<^verbatim>\<open>SQLValue\<close>, \<^verbatim>\<open>SQLParam\<close> and the
  \<^verbatim>\<open>unknown\<close> attribute values of the model layer). A number is an integer-valued
  double, held as the integer it denotes: every number the compiler computes with is a
  parameter index, a list length or a limit/offset. \<open>Inherited key\<close> is the member that a
  plain object inherits from \<^verbatim>\<open>Object.prototype\<close> under \<open>key\<close> (a function, or the
  prototype itself for \<^verbatim>\<open>__proto__\<close>).
\<close>

datatype js_value =
    Undefined
  | Null
  | Bool bool
  | Num int
  | Str string
  | BigInt int
  | Date int
  | Array "js_value list"
  | Object "(string \<times> js_value) list"
  | Inherited string

text \<open>A plain object, with its own enumerable keys in \<^verbatim>\<open>Object.entries\<close> order.\<close>

type_synonym row = "(string \<times> js_value) list"

datatype js_error = Error string | TypeError

text \<open>The property names every plain object inherits from \<^verbatim>\<open>Object.prototype\<close>.\<close>

definition object_prototype_keys :: "string list" where
  "object_prototype_keys =
     [''constructor'', ''__defineGetter__'', ''__defineSetter__'', ''hasOwnProperty'',
      ''__lookupGetter__'', ''__lookupSetter__'', ''isPrototypeOf'', ''propertyIsEnumerable'',
      ''toString'', ''valueOf'', ''__proto__'', ''toLocaleString'']"

text \<open>
  \<^verbatim>\<open>obj[prop]\<close> on a plain object: an own key gives its value, a key found only on the
  prototype gives the inherited member, and any other key reads as \<^verbatim>\<open>undefined\<close>.
\<close>

definition get_prop :: "row \<Rightarrow> string \<Rightarrow> js_value" where
  "get_prop obj prop =
     (case map_of obj prop of
        Some v \<Rightarrow> v
      | None \<Rightarrow> if prop \<in> set object_prototype_keys then Inherited prop else Undefined)"

text \<open>
  Addition of numbers. The sum of two integers is rounded to the nearest double, ties to
  the even significand: up to \<open>2\<^sup>5\<^sup>3\<close> in magnitude every integer is a double, beyond
  that only 53 leading bits are kept. Adding zero gives the number itself. Sums stay far
  below the largest double (the addends are indices and list lengths), so no sum overflows
  to \<^verbatim>\<open>Infinity\<close>.
\<close>

function bit_length :: "nat \<Rightarrow> nat" where
  "bit_length n = (if n = 0 then 0 else Suc (bit_length (n div 2)))"
  by pat_completeness auto
termination
  by (relation "measure id") auto

declare bit_length.simps [simp del]

definition round_double :: "int \<Rightarrow> int" where
  "round_double x =
     (if \<bar>x\<bar> \<le> 9007199254740992 then x
      else
        (let a = nat \<bar>x\<bar>;
             shift = bit_length a - 53;
             q = a div 2 ^ shift;
             r = a mod 2 ^ shift;
             half = 2 ^ (shift - 1);
             m = (if r > half \<or> (r = half \<and> odd q) then q + 1 else q)
         in sgn x * int (m * 2 ^ shift)))"

definition js_add :: "int \<Rightarrow> int \<Rightarrow> int" where
  "js_add a b = (if b = 0 then a else round_double (a + b))"

text \<open>The character of a decimal digit.\<close>

definition digit_char :: "nat \<Rightarrow> char" where
  "digit_char d = ''0123456789'' ! (d mod 10)"

function string_of_nat :: "nat \<Rightarrow> string" where
  "string_of_nat n =
     (if n < 10 then [digit_char n] else string_of_nat (n div 10) @ [digit_char (n mod 10)])"
  by pat_completeness auto
termination
  by (relation "measure id") auto

declare string_of_nat.simps [simp del]

text \<open>
  The decimal text a template literal \<^verbatim>\<open>`${n}`\<close> produces for an integer below
  \<open>10\<^sup>2\<^sup>1\<close> in magnitude, the range of every index, length, limit and offset that the
  theorems below render.
\<close>

definition number_toString :: "int \<Rightarrow> string" where
  "number_toString i =
     (if i < 0 then CHR ''-'' # string_of_nat (nat (- i)) else string_of_nat (nat i))"

text \<open>\<^verbatim>\<open>parts.join(sep)\<close>.\<close>

fun join :: "string \<Rightarrow> string list \<Rightarrow> string" where
  "join sep [] = []"
| "join sep [x] = x"
| "join sep (x # y # ys) = x @ sep @ join sep (y # ys)"

text \<open>\<^verbatim>\<open>s.toUpperCase()\<close> on the ASCII keywords the builder upper-cases.\<close>

definition upper_char :: "char \<Rightarrow> char" where
  "upper_char c =
     (case map_of (zip ''abcdefghijklmnopqrstuvwxyz'' ''ABCDEFGHIJKLMNOPQRSTUVWXYZ'') c of
        None \<Rightarrow> c | Some u \<Rightarrow> u)"

definition toUpperCase :: "string \<Rightarrow> string" where
  "toUpperCase s = map upper_char s"

text \<open>An identifier between double quotes, \<^verbatim>\<open>`"${name}"`\<close>.\<close>

definition quote_ident :: "string \<Rightarrow> string" where
  "quote_ident s = CHR 0x22 # s @ [CHR 0x22]"

text \<open>A positional placeholder, \<^verbatim>\<open>`$${i}`\<close>.\<close>

definition placeholder :: "int \<Rightarrow> string" where
  "placeholder i = CHR ''$'' # number_toString i"


section \<open>Schema: columns and tables (schema.ts)\<close>

datatype default_value = NoDefault | DefaultValue js_value | DefaultNow | DefaultRandom

text \<open>
  \<^verbatim>\<open>ColumnBuilder\<close>. The \<^verbatim>\<open>_references\<close> thunk is kept as the name of the column it
  points to; no compiled statement ever calls it.
\<close>

record column =
  columnType :: string
  columnName :: string
  references_ :: "string option"
  defaultValue :: default_value
  notNullFlag :: bool
  hasDefaultFlag :: bool
  isPrimaryKeyFlag :: bool

definition new_ColumnBuilder :: "string \<Rightarrow> string \<Rightarrow> column" where
  "new_ColumnBuilder ty name =
     \<lparr>columnType = ty, columnName = name, references_ = None, defaultValue = NoDefault,
      notNullFlag = False, hasDefaultFlag = False, isPrimaryKeyFlag = False\<rparr>"

definition notNull :: "column \<Rightarrow> column" where
  "notNull c = c\<lparr>notNullFlag := True\<rparr>"

definition default_to :: "column \<Rightarrow> js_value \<Rightarrow> column" where
  "default_to c v = c\<lparr>defaultValue := DefaultValue v, hasDefaultFlag := True\<rparr>"

definition defaultNow :: "column \<Rightarrow> column" where
  "defaultNow c = c\<lparr>defaultValue := DefaultNow, hasDefaultFlag := True\<rparr>"

definition defaultRandom :: "column \<Rightarrow> column" where
  "defaultRandom c = c\<lparr>defaultValue := DefaultRandom, hasDefaultFlag := True\<rparr>"

definition primaryKey :: "column \<Rightarrow> column" where
  "primaryKey c = c\<lparr>notNullFlag := True, isPrimaryKeyFlag := True\<rparr>"

definition text_col :: "string \<Rightarrow> column" where
  "text_col name = new_ColumnBuilder ''text'' name"

definition integer_col :: "string \<Rightarrow> column" where
  "integer_col name = new_ColumnBuilder ''integer'' name"

definition boolean_col :: "string \<Rightarrow> column" where
  "boolean_col name = new_ColumnBuilder ''boolean'' name"

definition uuid_col :: "string \<Rightarrow> column" where
  "uuid_col name = new_ColumnBuilder ''uuid'' name"

text \<open>
  \<^verbatim>\<open>Table\<close>: the table name and the columns object, as the list of its entries
  (property name, column) in \<^verbatim>\<open>Object.entries\<close> order.
\<close>

record table_def =
  tableName :: string
  columns :: "(string \<times> column) list"

definition table :: "string \<Rightarrow> (string \<times> column) list \<Rightarrow> table_def" where
  "table name cols = \<lparr>tableName = name, columns = cols\<rparr>"

text \<open>
  \<^verbatim>\<open>tableColumns[prop]?.columnName || prop\<close>: an absent column or an empty name falls
  back to the property name, and so does a member inherited from \<^verbatim>\<open>Object.prototype\<close>,
  which has no \<^verbatim>\<open>columnName\<close>.
\<close>

definition dbColumnName :: "table_def \<Rightarrow> string \<Rightarrow> string" where
  "dbColumnName t prop =
     (case map_of (columns t) prop of
        None \<Rightarrow> prop
      | Some c \<Rightarrow> if columnName c = [] then prop else columnName c)"


section \<open>Condition expressions (query.ts)\<close>

datatype sql_condition =
    ComparisonExpr column string js_value
  | InExpr column "js_value list"
  | NotInExpr column "js_value list"
  | IsNullExpr column
  | IsNotNullExpr column
  | BetweenExpr column js_value js_value
  | AndExpr "sql_condition list"
  | OrExpr "sql_condition list"
  | NotExpr sql_condition

text \<open>
  The compiled statement \<^verbatim>\<open>{ sql, params }\<close> of a builder, and the result
  \<^verbatim>\<open>{ sql, params, nextIndex }\<close> of a condition.
\<close>

record statement =
  sql :: string
  params :: "js_value list"

record cond_result = statement +
  nextIndex :: int

text \<open>\<^verbatim>\<open>this.values.map((_, i) => `$${paramIndex + i}`).join(', ')\<close>.\<close>

definition placeholders :: "js_value list \<Rightarrow> int \<Rightarrow> string" where
  "placeholders vs paramIndex =
     join '', '' (map (\<lambda>i. placeholder (js_add paramIndex (int i))) [0 ..< length vs])"

text \<open>
  \<^verbatim>\<open>toSQL(paramIndex)\<close> of every expression class. \<open>cond_loop\<close> is the \<^verbatim>\<open>for\<close> loop of
  \<^verbatim>\<open>AndExpr\<close> and \<^verbatim>\<open>OrExpr\<close> with its three loop variables \<^verbatim>\<open>parts\<close>, \<^verbatim>\<open>params\<close>, \<^verbatim>\<open>idx\<close>.
\<close>

fun cond_toSQL :: "sql_condition \<Rightarrow> int \<Rightarrow> cond_result"
  and cond_loop :: "sql_condition list \<Rightarrow> string list \<Rightarrow> js_value list \<Rightarrow> int
                    \<Rightarrow> string list \<times> js_value list \<times> int" where
  "cond_toSQL (ComparisonExpr c op v) paramIndex =
     \<lparr>sql = quote_ident (columnName c) @ '' '' @ op @ '' '' @ placeholder paramIndex,
      params = [v], nextIndex = js_add paramIndex 1\<rparr>"
| "cond_toSQL (InExpr c vs) paramIndex =
     \<lparr>sql = quote_ident (columnName c) @ '' IN ('' @ placeholders vs paramIndex @ '')'',
      params = vs, nextIndex = js_add paramIndex (int (length vs))\<rparr>"
| "cond_toSQL (NotInExpr c vs) paramIndex =
     \<lparr>sql = quote_ident (columnName c) @ '' NOT IN ('' @ placeholders vs paramIndex @ '')'',
      params = vs, nextIndex = js_add paramIndex (int (length vs))\<rparr>"
| "cond_toSQL (IsNullExpr c) paramIndex =
     \<lparr>sql = quote_ident (columnName c) @ '' IS NULL'', params = [], nextIndex = paramIndex\<rparr>"
| "cond_toSQL (IsNotNullExpr c) paramIndex =
     \<lparr>sql = quote_ident (columnName c) @ '' IS NOT NULL'', params = [],
      nextIndex = paramIndex\<rparr>"
| "cond_toSQL (BetweenExpr c lo hi) paramIndex =
     \<lparr>sql = quote_ident (columnName c) @ '' BETWEEN '' @ placeholder paramIndex @ '' AND ''
              @ placeholder (js_add paramIndex 1),
      params = [lo, hi], nextIndex = js_add paramIndex 2\<rparr>"
| "cond_toSQL (AndExpr conditions) paramIndex =
     (case cond_loop conditions [] [] paramIndex of
        (parts, ps, idx) \<Rightarrow>
          \<lparr>sql = ''('' @ join '' AND '' parts @ '')'', params = ps, nextIndex = idx\<rparr>)"
| "cond_toSQL (OrExpr conditions) paramIndex =
     (case cond_loop conditions [] [] paramIndex of
        (parts, ps, idx) \<Rightarrow>
          \<lparr>sql = ''('' @ join '' OR '' parts @ '')'', params = ps, nextIndex = idx\<rparr>)"
| "cond_toSQL (NotExpr condition) paramIndex =
     (let result = cond_toSQL condition paramIndex
      in \<lparr>sql = ''NOT '' @ sql result, params = params result, nextIndex = nextIndex result\<rparr>)"
| "cond_loop [] parts ps idx = (parts, ps, idx)"
| "cond_loop (cond # rest) parts ps idx =
     (let result = cond_toSQL cond idx
      in cond_loop rest (parts @ [sql result]) (ps @ params result) (nextIndex result))"

text \<open>The exported operator functions.\<close>

definition eq_cond :: "column \<Rightarrow> js_value \<Rightarrow> sql_condition" where
  "eq_cond c v = ComparisonExpr c ''='' v"

definition ne :: "column \<Rightarrow> js_value \<Rightarrow> sql_condition" where
  "ne c v = ComparisonExpr c ''<>'' v"

definition gt :: "column \<Rightarrow> js_value \<Rightarrow> sql_condition" where
  "gt c v = ComparisonExpr c ''>'' v"

definition gte :: "column \<Rightarrow> js_value \<Rightarrow> sql_condition" where
  "gte c v = ComparisonExpr c ''>='' v"

definition lt :: "column \<Rightarrow> js_value \<Rightarrow> sql_condition" where
  "lt c v = ComparisonExpr c ''<'' v"

definition lte :: "column \<Rightarrow> js_value \<Rightarrow> sql_condition" where
  "lte c v = ComparisonExpr c ''<='' v"

definition like :: "column \<Rightarrow> string \<Rightarrow> sql_condition" where
  "like c pattern = ComparisonExpr c ''LIKE'' (Str pattern)"

definition ilike :: "column \<Rightarrow> string \<Rightarrow> sql_condition" where
  "ilike c pattern = ComparisonExpr c ''ILIKE'' (Str pattern)"

definition inArray :: "column \<Rightarrow> js_value list \<Rightarrow> sql_condition" where
  "inArray c vs = InExpr c vs"

definition notInArray :: "column \<Rightarrow> js_value list \<Rightarrow> sql_condition" where
  "notInArray c vs = NotInExpr c vs"


definition isNotNull :: "column \<Rightarrow> sql_condition" where
  "isNotNull c = IsNotNullExpr c"


definition and_cond :: "sql_condition list \<Rightarrow> sql_condition" where
  "and_cond conditions = AndExpr conditions"

definition or_cond :: "sql_condition list \<Rightarrow> sql_condition" where
  "or_cond conditions = OrExpr conditions"

definition not_cond :: "sql_condition \<Rightarrow> sql_condition" where
  "not_cond condition = NotExpr condition"



section \<open>Statement builders (query.ts)\<close>

datatype direction = Asc | Desc

fun direction_str :: "direction \<Rightarrow> string" where
  "direction_str Asc = ''asc''"
| "direction_str Desc = ''desc''"

record order_item =
  ord_column :: column
  ord_direction :: direction

definition asc :: "column \<Rightarrow> order_item" where
  "asc c = \<lparr>ord_column = c, ord_direction = Asc\<rparr>"

definition desc :: "column \<Rightarrow> order_item" where
  "desc c = \<lparr>ord_column = c, ord_direction = Desc\<rparr>"

text \<open>
  An argument of \<^verbatim>\<open>orderBy(...orders)\<close>: an order descriptor, a bare column, or a
  primitive string, which the declared parameter type excludes but a caller can still pass.
\<close>

datatype order_arg = OrderArg order_item | ColumnArg column | StringArg string

datatype join_type = Inner | Left | Right | Full

fun join_type_str :: "join_type \<Rightarrow> string" where
  "join_type_str Inner = ''inner''"
| "join_type_str Left = ''left''"
| "join_type_str Right = ''right''"
| "join_type_str Full = ''full''"

record join_clause =
  jc_type :: join_type
  jc_table :: table_def
  jc_on :: sql_condition

text \<open>
  A value of the selection object: an aggregate descriptor \<^verbatim>\<open>{ _type: 'aggregate', fn, column }\<close>,
  a column, or anything else.
\<close>

datatype select_entry =
    AggregateEntry string "column option"
  | ColumnEntry column
  | OtherEntry

datatype selection = Star | Columns "(string \<times> select_entry) list"

definition count_agg :: "column option \<Rightarrow> select_entry" where
  "count_agg c = AggregateEntry ''count'' c"

definition sum_agg :: "column \<Rightarrow> select_entry" where
  "sum_agg c = AggregateEntry ''sum'' (Some c)"

definition avg_agg :: "column \<Rightarrow> select_entry" where
  "avg_agg c = AggregateEntry ''avg'' (Some c)"

definition min_agg :: "column \<Rightarrow> select_entry" where
  "min_agg c = AggregateEntry ''min'' (Some c)"

definition max_agg :: "column \<Rightarrow> select_entry" where
  "max_agg c = AggregateEntry ''max'' (Some c)"

subsection \<open>Select\<close>

record select_builder =
  sb_from :: "table_def option"
  sb_select :: selection
  sb_where :: "sql_condition option"
  sb_joins :: "join_clause list"
  sb_orderBy :: "order_item list"
  sb_groupBy :: "column list"
  sb_limit :: "int option"
  sb_offset :: "int option"

definition new_SelectQueryBuilder :: select_builder where
  "new_SelectQueryBuilder =
     \<lparr>sb_from = None, sb_select = Star, sb_where = None, sb_joins = [], sb_orderBy = [],
      sb_groupBy = [], sb_limit = None, sb_offset = None\<rparr>"

definition SelectQueryBuilder_select ::
  "select_builder \<Rightarrow> (string \<times> select_entry) list option \<Rightarrow> select_builder" where
  "SelectQueryBuilder_select this cols =
     \<lparr>sb_from = sb_from this,
      sb_select = (case cols of None \<Rightarrow> Star | Some cs \<Rightarrow> Columns cs),
      sb_where = sb_where this, sb_joins = sb_joins this, sb_orderBy = sb_orderBy this,
      sb_groupBy = sb_groupBy this, sb_limit = sb_limit this, sb_offset = sb_offset this\<rparr>"

definition SelectQueryBuilder_from :: "select_builder \<Rightarrow> table_def \<Rightarrow> select_builder" where
  "SelectQueryBuilder_from this t =
     \<lparr>sb_from = Some t, sb_select = sb_select this, sb_where = sb_where this,
      sb_joins = sb_joins this, sb_orderBy = sb_orderBy this, sb_groupBy = sb_groupBy this,
      sb_limit = sb_limit this, sb_offset = sb_offset this\<rparr>"

definition SelectQueryBuilder_where :: "select_builder \<Rightarrow> sql_condition \<Rightarrow> select_builder" where
  "SelectQueryBuilder_where this condition =
     \<lparr>sb_from = sb_from this, sb_select = sb_select this, sb_where = Some condition,
      sb_joins = sb_joins this, sb_orderBy = sb_orderBy this, sb_groupBy = sb_groupBy this,
      sb_limit = sb_limit this, sb_offset = sb_offset this\<rparr>"

definition add_join ::
  "select_builder \<Rightarrow> join_type \<Rightarrow> table_def \<Rightarrow> sql_condition \<Rightarrow> select_builder" where
  "add_join this ty t on =
     \<lparr>sb_from = sb_from this, sb_select = sb_select this, sb_where = sb_where this,
      sb_joins = sb_joins this @ [\<lparr>jc_type = ty, jc_table = t, jc_on = on\<rparr>],
      sb_orderBy = sb_orderBy this, sb_groupBy = sb_groupBy this,
      sb_limit = sb_limit this, sb_offset = sb_offset this\<rparr>"

definition SelectQueryBuilder_innerJoin ::
  "select_builder \<Rightarrow> table_def \<Rightarrow> sql_condition \<Rightarrow> select_builder" where
  "SelectQueryBuilder_innerJoin this t on = add_join this Inner t on"

definition SelectQueryBuilder_leftJoin ::
  "select_builder \<Rightarrow> table_def \<Rightarrow> sql_condition \<Rightarrow> select_builder" where
  "SelectQueryBuilder_leftJoin this t on = add_join this Left t on"

definition SelectQueryBuilder_rightJoin ::
  "select_builder \<Rightarrow> table_def \<Rightarrow> sql_condition \<Rightarrow> select_builder" where
  "SelectQueryBuilder_rightJoin this t on = add_join this Right t on"

text \<open>
  \<^verbatim>\<open>orders.map((o) => 'direction' in o ? o : { column: o, direction: 'asc' })\<close>.
  The \<^verbatim>\<open>in\<close> operator throws a \<^verbatim>\<open>TypeError\<close> when its right operand is a primitive.
\<close>

fun order_of_arg :: "order_arg \<Rightarrow> js_error + order_item" where
  "order_of_arg (OrderArg ord) = Inr ord"
| "order_of_arg (ColumnArg c) = Inr \<lparr>ord_column = c, ord_direction = Asc\<rparr>"
| "order_of_arg (StringArg s) = Inl TypeError"

fun map_orders :: "order_arg list \<Rightarrow> js_error + order_item list" where
  "map_orders [] = Inr []"
| "map_orders (a # as) =
     (case order_of_arg a of
        Inl e \<Rightarrow> Inl e
      | Inr ord \<Rightarrow> (case map_orders as of Inl e \<Rightarrow> Inl e | Inr os \<Rightarrow> Inr (ord # os)))"

definition SelectQueryBuilder_orderBy ::
  "select_builder \<Rightarrow> order_arg list \<Rightarrow> js_error + select_builder" where
  "SelectQueryBuilder_orderBy this orders =
     (case map_orders orders of
        Inl e \<Rightarrow> Inl e
      | Inr os \<Rightarrow>
          Inr \<lparr>sb_from = sb_from this, sb_select = sb_select this, sb_where = sb_where this,
               sb_joins = sb_joins this, sb_orderBy = os, sb_groupBy = sb_groupBy this,
               sb_limit = sb_limit this, sb_offset = sb_offset this\<rparr>)"

definition SelectQueryBuilder_groupBy :: "select_builder \<Rightarrow> column list \<Rightarrow> select_builder" where
  "SelectQueryBuilder_groupBy this cols =
     \<lparr>sb_from = sb_from this, sb_select = sb_select this, sb_where = sb_where this,
      sb_joins = sb_joins this, sb_orderBy = sb_orderBy this, sb_groupBy = cols,
      sb_limit = sb_limit this, sb_offset = sb_offset this\<rparr>"

definition SelectQueryBuilder_limit :: "select_builder \<Rightarrow> int \<Rightarrow> select_builder" where
  "SelectQueryBuilder_limit this n =
     \<lparr>sb_from = sb_from this, sb_select = sb_select this, sb_where = sb_where this,
      sb_joins = sb_joins this, sb_orderBy = sb_orderBy this, sb_groupBy = sb_groupBy this,
      sb_limit = Some n, sb_offset = sb_offset this\<rparr>"

definition SelectQueryBuilder_offset :: "select_builder \<Rightarrow> int \<Rightarrow> select_builder" where
  "SelectQueryBuilder_offset this n =
     \<lparr>sb_from = sb_from this, sb_select = sb_select this, sb_where = sb_where this,
      sb_joins = sb_joins this, sb_orderBy = sb_orderBy this, sb_groupBy = sb_groupBy this,
      sb_limit = sb_limit this, sb_offset = Some n\<rparr>"

fun render_entry :: "string \<times> select_entry \<Rightarrow> string" where
  "render_entry (alias, AggregateEntry fn (Some c)) =
     toUpperCase fn @ ''('' @ quote_ident (columnName c) @ '') AS '' @ quote_ident alias"
| "render_entry (alias, AggregateEntry fn None) =
     toUpperCase fn @ ''(*) AS '' @ quote_ident alias"
| "render_entry (alias, ColumnEntry c) =
     quote_ident (columnName c) @ '' AS '' @ quote_ident alias"
| "render_entry (alias, OtherEntry) = quote_ident alias"

text \<open>The \<^verbatim>\<open>for (const join of this._joins)\<close> loop of \<^verbatim>\<open>toSQL\<close>.\<close>

fun join_loop :: "join_clause list \<Rightarrow> string list \<Rightarrow> js_value list \<Rightarrow> int
                  \<Rightarrow> string list \<times> js_value list \<times> int" where
  "join_loop [] parts ps paramIndex = (parts, ps, paramIndex)"
| "join_loop (j # rest) parts ps paramIndex =
     (let onResult = cond_toSQL (jc_on j) paramIndex
      in join_loop rest
           (parts @ [toUpperCase (join_type_str (jc_type j)) @ '' JOIN ''
                     @ quote_ident (tableName (jc_table j)) @ '' ON '' @ sql onResult])
           (ps @ params onResult) (nextIndex onResult))"

definition SelectQueryBuilder_toSQL :: "select_builder \<Rightarrow> js_error + statement" where
  "SelectQueryBuilder_toSQL this =
     (case sb_from this of
        None \<Rightarrow> Inl (Error ''FROM clause is required'')
      | Some t \<Rightarrow>
          (let parts0 =
                 (case sb_select this of
                    Star \<Rightarrow> [''SELECT * FROM '' @ quote_ident (tableName t)]
                  | Columns cs \<Rightarrow>
                      [''SELECT '' @ join '', '' (map render_entry cs) @ '' FROM ''
                       @ quote_ident (tableName t)])
           in case join_loop (sb_joins this) parts0 [] 1 of
             (parts1, params1, paramIndex1) \<Rightarrow>
               (let (parts2, params2) =
                      (case sb_where this of
                         None \<Rightarrow> (parts1, params1)
                       | Some w \<Rightarrow>
                           (let whereResult = cond_toSQL w paramIndex1
                            in (parts1 @ [''WHERE '' @ sql whereResult],
                                params1 @ params whereResult)));
                    parts3 =
                      (if length (sb_groupBy this) > 0
                       then parts2 @ [''GROUP BY '' @ join '', ''
                              (map (\<lambda>c. quote_ident (columnName c)) (sb_groupBy this))]
                       else parts2);
                    parts4 =
                      (if length (sb_orderBy this) > 0
                       then parts3 @ [''ORDER BY '' @ join '', ''
                              (map (\<lambda>ord. quote_ident (columnName (ord_column ord)) @ '' ''
                                         @ toUpperCase (direction_str (ord_direction ord)))
                                 (sb_orderBy this))]
                       else parts3);
                    parts5 =
                      (case sb_limit this of
                         None \<Rightarrow> parts4
                       | Some n \<Rightarrow> parts4 @ [''LIMIT '' @ number_toString n]);
                    parts6 =
                      (case sb_offset this of
                         None \<Rightarrow> parts5
                       | Some n \<Rightarrow> parts5 @ [''OFFSET '' @ number_toString n])
                in Inr \<lparr>sql = join '' '' parts6, params = params2\<rparr>)))"

subsection \<open>The runtime gateway\<close>

text \<open>
  \<^verbatim>\<open>globalThis.__tanaDb\<close>, when bound, answers the three calls; an answer may depend on the
  calls made before it. The world records every call that reaches the gateway.
\<close>

datatype gw_call =
    Query string "js_value list"
  | Execute string "js_value list"
  | ExecuteReturning string "js_value list"

record runtime =
  rt_query :: "gw_call list \<Rightarrow> string \<Rightarrow> js_value list \<Rightarrow> js_error + row list"
  rt_execute :: "gw_call list \<Rightarrow> string \<Rightarrow> js_value list \<Rightarrow> js_error + int"
  rt_executeReturning :: "gw_call list \<Rightarrow> string \<Rightarrow> js_value list \<Rightarrow> js_error + row list"

record world =
  tanaDb :: "runtime option"
  calls :: "gw_call list"

definition runtime_query ::
  "runtime \<Rightarrow> string \<Rightarrow> js_value list \<Rightarrow> world \<Rightarrow> (js_error + row list) \<times> world" where
  "runtime_query rt s ps w = (rt_query rt (calls w) s ps, w\<lparr>calls := calls w @ [Query s ps]\<rparr>)"

definition runtime_execute ::
  "runtime \<Rightarrow> string \<Rightarrow> js_value list \<Rightarrow> world \<Rightarrow> (js_error + int) \<times> world" where
  "runtime_execute rt s ps w =
     (rt_execute rt (calls w) s ps, w\<lparr>calls := calls w @ [Execute s ps]\<rparr>)"

definition runtime_executeReturning ::
  "runtime \<Rightarrow> string \<Rightarrow> js_value list \<Rightarrow> world \<Rightarrow> (js_error + row list) \<times> world" where
  "runtime_executeReturning rt s ps w =
     (rt_executeReturning rt (calls w) s ps, w\<lparr>calls := calls w @ [ExecuteReturning s ps]\<rparr>)"

definition SelectQueryBuilder_execute ::
  "select_builder \<Rightarrow> world \<Rightarrow> (js_error + row list) \<times> world" where
  "SelectQueryBuilder_execute this w =
     (case SelectQueryBuilder_toSQL this of
        Inl e \<Rightarrow> (Inl e, w)
      | Inr st \<Rightarrow>
          (case tanaDb w of
             None \<Rightarrow>
               (Inl (Error ''Tana DB runtime not initialized. Are you running inside tana-edge?''), w)
           | Some rt \<Rightarrow> runtime_query rt (sql st) (params st) w))"

text \<open>
  The body shared by \<^verbatim>\<open>execute()\<close> of the insert, update and delete builders, after
  \<^verbatim>\<open>toSQL()\<close> has returned.
\<close>

definition dispatch_write ::
  "bool \<Rightarrow> statement \<Rightarrow> world \<Rightarrow> (js_error + row list) \<times> world" where
  "dispatch_write returning st w =
     (case tanaDb w of
        None \<Rightarrow> (Inl (Error ''Tana DB runtime not initialized''), w)
      | Some rt \<Rightarrow>
          if returning then runtime_executeReturning rt (sql st) (params st) w
          else (case runtime_execute rt (sql st) (params st) w of
                  (Inl e, w') \<Rightarrow> (Inl e, w')
                | (Inr n, w') \<Rightarrow> (Inr [], w')))"

subsection \<open>Insert\<close>

record insert_builder =
  ib_table :: table_def
  ib_values :: "row list"
  ib_returning :: bool

definition new_InsertQueryBuilder :: "table_def \<Rightarrow> insert_builder" where
  "new_InsertQueryBuilder t = \<lparr>ib_table = t, ib_values = [], ib_returning = False\<rparr>"

text \<open>The argument of \<^verbatim>\<open>values(data)\<close>: one row object or an array of them.\<close>

datatype values_arg = OneRow row | RowArray "row list"

definition InsertQueryBuilder_values :: "insert_builder \<Rightarrow> values_arg \<Rightarrow> insert_builder" where
  "InsertQueryBuilder_values this data =
     \<lparr>ib_table = ib_table this,
      ib_values = (case data of RowArray rs \<Rightarrow> rs | OneRow r \<Rightarrow> [r]),
      ib_returning = ib_returning this\<rparr>"

definition InsertQueryBuilder_returning :: "insert_builder \<Rightarrow> insert_builder" where
  "InsertQueryBuilder_returning this =
     \<lparr>ib_table = ib_table this, ib_values = ib_values this, ib_returning = True\<rparr>"

text \<open>
  The inner \<^verbatim>\<open>propNames.map\<close> of one row, which pushes onto \<^verbatim>\<open>params\<close> and increments
  \<^verbatim>\<open>paramIndex\<close>, and the outer \<^verbatim>\<open>this._values.map\<close> over the rows.
\<close>

fun placeholders_loop :: "string list \<Rightarrow> row \<Rightarrow> string list \<Rightarrow> js_value list \<Rightarrow> int
                          \<Rightarrow> string list \<times> js_value list \<times> int" where
  "placeholders_loop [] r acc ps paramIndex = (acc, ps, paramIndex)"
| "placeholders_loop (prop # rest) r acc ps paramIndex =
     placeholders_loop rest r (acc @ [placeholder paramIndex]) (ps @ [get_prop r prop])
       (js_add paramIndex 1)"

fun valueLists_loop :: "row list \<Rightarrow> string list \<Rightarrow> string list \<Rightarrow> js_value list \<Rightarrow> int
                        \<Rightarrow> string list \<times> js_value list \<times> int" where
  "valueLists_loop [] propNames acc ps paramIndex = (acc, ps, paramIndex)"
| "valueLists_loop (r # rest) propNames acc ps paramIndex =
     (case placeholders_loop propNames r [] ps paramIndex of
        (phs, ps', paramIndex') \<Rightarrow>
          valueLists_loop rest propNames (acc @ [''('' @ join '', '' phs @ '')'']) ps'
            paramIndex')"

definition InsertQueryBuilder_toSQL :: "insert_builder \<Rightarrow> js_error + statement" where
  "InsertQueryBuilder_toSQL this =
     (case ib_values this of
        [] \<Rightarrow> Inl (Error ''No values to insert'')
      | first # _ \<Rightarrow>
          (let propNames = map fst first;
               dbColumnNames = map (dbColumnName (ib_table this)) propNames;
               columnList = join '', '' (map quote_ident dbColumnNames)
           in case valueLists_loop (ib_values this) propNames [] [] 1 of
             (valueLists, ps, paramIndex) \<Rightarrow>
               (let s = ''INSERT INTO '' @ quote_ident (tableName (ib_table this)) @ '' (''
                        @ columnList @ '') VALUES '' @ join '', '' valueLists;
                    s' = (if ib_returning this then s @ '' RETURNING *'' else s)
                in Inr \<lparr>sql = s', params = ps\<rparr>)))"

definition InsertQueryBuilder_execute ::
  "insert_builder \<Rightarrow> world \<Rightarrow> (js_error + row list) \<times> world" where
  "InsertQueryBuilder_execute this w =
     (case InsertQueryBuilder_toSQL this of
        Inl e \<Rightarrow> (Inl e, w)
      | Inr st \<Rightarrow> dispatch_write (ib_returning this) st w)"

subsection \<open>Update\<close>

record update_builder =
  ub_table :: table_def
  ub_set :: row
  ub_where :: "sql_condition option"
  ub_returning :: bool

definition new_UpdateQueryBuilder :: "table_def \<Rightarrow> update_builder" where
  "new_UpdateQueryBuilder t =
     \<lparr>ub_table = t, ub_set = [], ub_where = None, ub_returning = False\<rparr>"

definition UpdateQueryBuilder_set :: "update_builder \<Rightarrow> row \<Rightarrow> update_builder" where
  "UpdateQueryBuilder_set this data =
     \<lparr>ub_table = ub_table this, ub_set = data, ub_where = ub_where this,
      ub_returning = ub_returning this\<rparr>"

definition UpdateQueryBuilder_where :: "update_builder \<Rightarrow> sql_condition \<Rightarrow> update_builder" where
  "UpdateQueryBuilder_where this condition =
     \<lparr>ub_table = ub_table this, ub_set = ub_set this, ub_where = Some condition,
      ub_returning = ub_returning this\<rparr>"

definition UpdateQueryBuilder_returning :: "update_builder \<Rightarrow> update_builder" where
  "UpdateQueryBuilder_returning this =
     \<lparr>ub_table = ub_table this, ub_set = ub_set this, ub_where = ub_where this,
      ub_returning = True\<rparr>"

text \<open>The \<^verbatim>\<open>propNames.map\<close> that builds the \<^verbatim>\<open>SET\<close> clause.\<close>

fun set_loop :: "string list \<Rightarrow> table_def \<Rightarrow> row \<Rightarrow> string list \<Rightarrow> js_value list \<Rightarrow> int
                 \<Rightarrow> string list \<times> js_value list \<times> int" where
  "set_loop [] t data acc ps paramIndex = (acc, ps, paramIndex)"
| "set_loop (prop # rest) t data acc ps paramIndex =
     set_loop rest t data
       (acc @ [quote_ident (dbColumnName t prop) @ '' = '' @ placeholder paramIndex])
       (ps @ [get_prop data prop]) (js_add paramIndex 1)"

definition UpdateQueryBuilder_toSQL :: "update_builder \<Rightarrow> js_error + statement" where
  "UpdateQueryBuilder_toSQL this =
     (let propNames = map fst (ub_set this)
      in if length propNames = 0 then Inl (Error ''No columns to update'')
         else
           (case set_loop propNames (ub_table this) (ub_set this) [] [] 1 of
              (setParts, ps, paramIndex) \<Rightarrow>
                (let s = ''UPDATE '' @ quote_ident (tableName (ub_table this)) @ '' SET ''
                         @ join '', '' setParts;
                     (s1, ps1) =
                       (case ub_where this of
                          None \<Rightarrow> (s, ps)
                        | Some w \<Rightarrow>
                            (let whereResult = cond_toSQL w paramIndex
                             in (s @ '' WHERE '' @ sql whereResult, ps @ params whereResult)));
                     s2 = (if ub_returning this then s1 @ '' RETURNING *'' else s1)
                 in Inr \<lparr>sql = s2, params = ps1\<rparr>)))"

definition UpdateQueryBuilder_execute ::
  "update_builder \<Rightarrow> world \<Rightarrow> (js_error + row list) \<times> world" where
  "UpdateQueryBuilder_execute this w =
     (case UpdateQueryBuilder_toSQL this of
        Inl e \<Rightarrow> (Inl e, w)
      | Inr st \<Rightarrow> dispatch_write (ub_returning this) st w)"

subsection \<open>Delete\<close>

record delete_builder =
  db_table :: table_def
  db_where :: "sql_condition option"
  db_returning :: bool

definition new_DeleteQueryBuilder :: "table_def \<Rightarrow> delete_builder" where
  "new_DeleteQueryBuilder t = \<lparr>db_table = t, db_where = None, db_returning = False\<rparr>"

definition DeleteQueryBuilder_where :: "delete_builder \<Rightarrow> sql_condition \<Rightarrow> delete_builder" where
  "DeleteQueryBuilder_where this condition =
     \<lparr>db_table = db_table this, db_where = Some condition, db_returning = db_returning this\<rparr>"

definition DeleteQueryBuilder_returning :: "delete_builder \<Rightarrow> delete_builder" where
  "DeleteQueryBuilder_returning this =
     \<lparr>db_table = db_table this, db_where = db_where this, db_returning = True\<rparr>"

definition DeleteQueryBuilder_toSQL :: "delete_builder \<Rightarrow> statement" where
  "DeleteQueryBuilder_toSQL this =
     (let s = ''DELETE FROM '' @ quote_ident (tableName (db_table this));
          (s1, ps1) =
            (case db_where this of
               None \<Rightarrow> (s, [])
             | Some w \<Rightarrow>
                 (let whereResult = cond_toSQL w 1
                  in (s @ '' WHERE '' @ sql whereResult, params whereResult)));
          s2 = (if db_returning this then s1 @ '' RETURNING *'' else s1)
      in \<lparr>sql = s2, params = ps1\<rparr>)"

definition DeleteQueryBuilder_execute ::
  "delete_builder \<Rightarrow> world \<Rightarrow> (js_error + row list) \<times> world" where
  "DeleteQueryBuilder_execute this w =
     dispatch_write (db_returning this) (DeleteQueryBuilder_toSQL this) w"

subsection \<open>The \<^verbatim>\<open>db\<close> entry points\<close>

definition db_select :: "(string \<times> select_entry) list option \<Rightarrow> select_builder" where
  "db_select cols = SelectQueryBuilder_select new_SelectQueryBuilder cols"

definition db_insert :: "table_def \<Rightarrow> insert_builder" where
  "db_insert t = new_InsertQueryBuilder t"

definition db_update :: "table_def \<Rightarrow> update_builder" where
  "db_update t = new_UpdateQueryBuilder t"

definition db_delete :: "table_def \<Rightarrow> delete_builder" where
  "db_delete t = new_DeleteQueryBuilder t"


section \<open>The select builder as a heap object\<close>

text \<open>
  Every chain method of \<^verbatim>\<open>SelectQueryBuilder\<close> runs \<^verbatim>\<open>new SelectQueryBuilder()\<close> and then
  assigns the eight fields of the new object. The three list fields hold references to
  arrays, and most methods copy the reference, so a derived builder shares arrays with its
  receiver. The heap below makes that sharing explicit: an address is an index into the
  list of allocated objects, and allocation appends.
\<close>

type_synonym addr = nat

record builder_obj =
  o_from :: "table_def option"
  o_select :: selection
  o_where :: "sql_condition option"
  o_joins :: addr
  o_orderBy :: addr
  o_groupBy :: addr
  o_limit :: "int option"
  o_offset :: "int option"

datatype heap_obj =
    BuilderObj builder_obj
  | JoinArray "join_clause list"
  | OrderArray "order_item list"
  | ColumnArray "column list"

type_synonym heap = "heap_obj list"

definition alloc :: "heap \<Rightarrow> heap_obj \<Rightarrow> addr \<times> heap" where
  "alloc h x = (length h, h @ [x])"

definition read_obj :: "heap \<Rightarrow> addr \<Rightarrow> heap_obj option" where
  "read_obj h a = (if a < length h then Some (h ! a) else None)"

definition read_builder :: "heap \<Rightarrow> addr \<Rightarrow> builder_obj option" where
  "read_builder h a = (case read_obj h a of Some (BuilderObj b) \<Rightarrow> Some b | _ \<Rightarrow> None)"

text \<open>The field assignments \<^verbatim>\<open>builder._x = ...\<close> on the object at address \<open>b\<close>.\<close>

definition assign :: "heap \<Rightarrow> addr \<Rightarrow> (builder_obj \<Rightarrow> builder_obj) \<Rightarrow> heap" where
  "assign h b f = (case read_builder h b of None \<Rightarrow> h | Some ob \<Rightarrow> h[b := BuilderObj (f ob)])"

text \<open>
  \<^verbatim>\<open>new SelectQueryBuilder()\<close>: the field initialisers allocate three empty arrays, then
  the object itself.
\<close>

definition new_SelectQueryBuilder_at :: "heap \<Rightarrow> addr \<times> heap" where
  "new_SelectQueryBuilder_at h =
     (let (j, h1) = alloc h (JoinArray []);
          (ob, h2) = alloc h1 (OrderArray []);
          (g, h3) = alloc h2 (ColumnArray [])
      in alloc h3 (BuilderObj
           \<lparr>o_from = None, o_select = Star, o_where = None, o_joins = j, o_orderBy = ob,
            o_groupBy = g, o_limit = None, o_offset = None\<rparr>))"

text \<open>The object that \<^verbatim>\<open>new SelectQueryBuilder()\<close> leaves at the top of the heap \<open>h\<close>.\<close>

definition fresh_obj :: "heap \<Rightarrow> builder_obj" where
  "fresh_obj h =
     \<lparr>o_from = None, o_select = Star, o_where = None, o_joins = length h,
      o_orderBy = Suc (length h), o_groupBy = Suc (Suc (length h)), o_limit = None,
      o_offset = None\<rparr>"

text \<open>
  The chain methods. Each returns the address of the derived builder and the heap after the
  call; \<open>None\<close> stands for a receiver that is not a live builder, which JavaScript
  cannot produce.
\<close>

definition select_at ::
  "heap \<Rightarrow> addr \<Rightarrow> (string \<times> select_entry) list option \<Rightarrow> (addr \<times> heap) option" where
  "select_at h this cols =
     (case read_builder h this of
        None \<Rightarrow> None
      | Some t \<Rightarrow>
          (let (builder, h1) = new_SelectQueryBuilder_at h
           in Some (builder, assign h1 builder (\<lambda>b. b
                \<lparr>o_select := (case cols of None \<Rightarrow> Star | Some cs \<Rightarrow> Columns cs),
                 o_from := o_from t, o_where := o_where t, o_joins := o_joins t,
                 o_orderBy := o_orderBy t, o_groupBy := o_groupBy t,
                 o_limit := o_limit t, o_offset := o_offset t\<rparr>))))"

definition from_at :: "heap \<Rightarrow> addr \<Rightarrow> table_def \<Rightarrow> (addr \<times> heap) option" where
  "from_at h this tbl =
     (case read_builder h this of
        None \<Rightarrow> None
      | Some t \<Rightarrow>
          (let (builder, h1) = new_SelectQueryBuilder_at h
           in Some (builder, assign h1 builder (\<lambda>b. b
                \<lparr>o_from := Some tbl, o_select := o_select t, o_where := o_where t,
                 o_joins := o_joins t, o_orderBy := o_orderBy t, o_groupBy := o_groupBy t,
                 o_limit := o_limit t, o_offset := o_offset t\<rparr>))))"

definition where_at :: "heap \<Rightarrow> addr \<Rightarrow> sql_condition \<Rightarrow> (addr \<times> heap) option" where
  "where_at h this condition =
     (case read_builder h this of
        None \<Rightarrow> None
      | Some t \<Rightarrow>
          (let (builder, h1) = new_SelectQueryBuilder_at h
           in Some (builder, assign h1 builder (\<lambda>b. b
                \<lparr>o_from := o_from t, o_select := o_select t, o_where := Some condition,
                 o_joins := o_joins t, o_orderBy := o_orderBy t, o_groupBy := o_groupBy t,
                 o_limit := o_limit t, o_offset := o_offset t\<rparr>))))"

text \<open>
  \<^verbatim>\<open>builder._joins = [...this._joins, { type, table, on }]\<close>: the spread reads the
  receiver's array and allocates a new one.
\<close>

definition join_at ::
  "heap \<Rightarrow> addr \<Rightarrow> join_type \<Rightarrow> table_def \<Rightarrow> sql_condition \<Rightarrow> (addr \<times> heap) option" where
  "join_at h this ty tbl on =
     (case read_builder h this of
        None \<Rightarrow> None
      | Some t \<Rightarrow>
          (let (builder, h1) = new_SelectQueryBuilder_at h
           in case read_obj h1 (o_joins t) of
                Some (JoinArray js) \<Rightarrow>
                  (let (a, h2) =
                         alloc h1 (JoinArray (js @ [\<lparr>jc_type = ty, jc_table = tbl, jc_on = on\<rparr>]))
                   in Some (builder, assign h2 builder (\<lambda>b. b
                        \<lparr>o_from := o_from t, o_select := o_select t, o_where := o_where t,
                         o_joins := a, o_orderBy := o_orderBy t, o_groupBy := o_groupBy t,
                         o_limit := o_limit t, o_offset := o_offset t\<rparr>)))
              | _ \<Rightarrow> None))"

definition innerJoin_at ::
  "heap \<Rightarrow> addr \<Rightarrow> table_def \<Rightarrow> sql_condition \<Rightarrow> (addr \<times> heap) option" where
  "innerJoin_at h this tbl on = join_at h this Inner tbl on"

definition leftJoin_at ::
  "heap \<Rightarrow> addr \<Rightarrow> table_def \<Rightarrow> sql_condition \<Rightarrow> (addr \<times> heap) option" where
  "leftJoin_at h this tbl on = join_at h this Left tbl on"

definition rightJoin_at ::
  "heap \<Rightarrow> addr \<Rightarrow> table_def \<Rightarrow> sql_condition \<Rightarrow> (addr \<times> heap) option" where
  "rightJoin_at h this tbl on = join_at h this Right tbl on"

text \<open>
  \<^verbatim>\<open>orderBy\<close> assigns \<^verbatim>\<open>_from\<close>, \<^verbatim>\<open>_select\<close>, \<^verbatim>\<open>_where\<close> and \<^verbatim>\<open>_joins\<close>, then maps the
  arguments into a new array; when the map throws, the half-initialised object stays
  behind unreferenced.
\<close>

definition orderBy_at ::
  "heap \<Rightarrow> addr \<Rightarrow> order_arg list \<Rightarrow> ((js_error + addr) \<times> heap) option" where
  "orderBy_at h this orders =
     (case read_builder h this of
        None \<Rightarrow> None
      | Some t \<Rightarrow>
          (let (builder, h1) = new_SelectQueryBuilder_at h;
               h2 = assign h1 builder (\<lambda>b. b
                      \<lparr>o_from := o_from t, o_select := o_select t, o_where := o_where t,
                       o_joins := o_joins t\<rparr>)
           in case map_orders orders of
                Inl e \<Rightarrow> Some (Inl e, h2)
              | Inr os \<Rightarrow>
                  (let (a, h3) = alloc h2 (OrderArray os)
                   in Some (Inr builder, assign h3 builder (\<lambda>b. b
                        \<lparr>o_orderBy := a, o_groupBy := o_groupBy t, o_limit := o_limit t,
                         o_offset := o_offset t\<rparr>)))))"

text \<open>\<^verbatim>\<open>builder._groupBy = columns\<close>: the rest parameter is a fresh array.\<close>

definition groupBy_at :: "heap \<Rightarrow> addr \<Rightarrow> column list \<Rightarrow> (addr \<times> heap) option" where
  "groupBy_at h this cols =
     (case read_builder h this of
        None \<Rightarrow> None
      | Some t \<Rightarrow>
          (let (builder, h1) = new_SelectQueryBuilder_at h;
               (a, h2) = alloc h1 (ColumnArray cols)
           in Some (builder, assign h2 builder (\<lambda>b. b
                \<lparr>o_from := o_from t, o_select := o_select t, o_where := o_where t,
                 o_joins := o_joins t, o_orderBy := o_orderBy t, o_groupBy := a,
                 o_limit := o_limit t, o_offset := o_offset t\<rparr>))))"

definition limit_at :: "heap \<Rightarrow> addr \<Rightarrow> int \<Rightarrow> (addr \<times> heap) option" where
  "limit_at h this n =
     (case read_builder h this of
        None \<Rightarrow> None
      | Some t \<Rightarrow>
          (let (builder, h1) = new_SelectQueryBuilder_at h
           in Some (builder, assign h1 builder (\<lambda>b. b
                \<lparr>o_from := o_from t, o_select := o_select t, o_where := o_where t,
                 o_joins := o_joins t, o_orderBy := o_orderBy t, o_groupBy := o_groupBy t,
                 o_limit := Some n, o_offset := o_offset t\<rparr>))))"

definition offset_at :: "heap \<Rightarrow> addr \<Rightarrow> int \<Rightarrow> (addr \<times> heap) option" where
  "offset_at h this n =
     (case read_builder h this of
        None \<Rightarrow> None
      | Some t \<Rightarrow>
          (let (builder, h1) = new_SelectQueryBuilder_at h
           in Some (builder, assign h1 builder (\<lambda>b. b
                \<lparr>o_from := o_from t, o_select := o_select t, o_where := o_where t,
                 o_joins := o_joins t, o_orderBy := o_orderBy t, o_groupBy := o_groupBy t,
                 o_limit := o_limit t, o_offset := Some n\<rparr>))))"

text \<open>
  What \<^verbatim>\<open>toSQL()\<close> reads through \<^verbatim>\<open>this\<close>: the fields of the object and the contents of
  the three arrays they point to.
\<close>

definition snapshot :: "heap \<Rightarrow> addr \<Rightarrow> select_builder option" where
  "snapshot h a =
     (case read_builder h a of
        None \<Rightarrow> None
      | Some b \<Rightarrow>
          (case (read_obj h (o_joins b), read_obj h (o_orderBy b), read_obj h (o_groupBy b)) of
             (Some (JoinArray js), Some (OrderArray os), Some (ColumnArray cs)) \<Rightarrow>
               Some \<lparr>sb_from = o_from b, sb_select = o_select b, sb_where = o_where b,
                     sb_joins = js, sb_orderBy = os, sb_groupBy = cs,
                     sb_limit = o_limit b, sb_offset = o_offset b\<rparr>
           | _ \<Rightarrow> None))"

definition toSQL_at :: "heap \<Rightarrow> addr \<Rightarrow> (js_error + statement) option" where
  "toSQL_at h a = map_option SelectQueryBuilder_toSQL (snapshot h a)"

text \<open>\<^verbatim>\<open>db.select(columns)\<close> on the heap: a fresh builder, then \<^verbatim>\<open>select\<close> on it.\<close>

definition db_select_at ::
  "heap \<Rightarrow> (string \<times> select_entry) list option \<Rightarrow> (addr \<times> heap) option" where
  "db_select_at h cols = (let (b, h1) = new_SelectQueryBuilder_at h in select_at h1 b cols)"


section \<open>The model layer (model.ts)\<close>

subsection \<open>QueryChain\<close>

record query_chain =
  qc_table :: table_def
  qc_conditions :: "sql_condition list"
  qc_orderByList :: "(string \<times> direction) list"
  qc_limitValue :: "int option"
  qc_offsetValue :: "int option"

definition new_QueryChain :: "table_def \<Rightarrow> query_chain" where
  "new_QueryChain t =
     \<lparr>qc_table = t, qc_conditions = [], qc_orderByList = [], qc_limitValue = None,
      qc_offsetValue = None\<rparr>"

text \<open>
  What \<^verbatim>\<open>column as ColumnBuilder\<close> is when \<^verbatim>\<open>columns[key]\<close> found a member inherited from
  \<^verbatim>\<open>Object.prototype\<close> instead of a column: an object none of whose column fields is
  defined. Only \<^verbatim>\<open>columnName\<close> is ever read from it, inside a template literal, where
  \<^verbatim>\<open>undefined\<close> prints as the text \<^verbatim>\<open>undefined\<close>.
\<close>

definition inherited_as_column :: column where
  "inherited_as_column =
     \<lparr>columnType = ''undefined'', columnName = ''undefined'', references_ = None,
      defaultValue = NoDefault, notNullFlag = False, hasDefaultFlag = False,
      isPrimaryKeyFlag = False\<rparr>"

text \<open>
  The loop over \<^verbatim>\<open>Object.entries(conditions)\<close>: a key pushes an equality only
  \<^verbatim>\<open>if (column)\<close>. The read \<^verbatim>\<open>this._table.columns[key]\<close> is truthy when the table has a
  column under that key, and also when the key names a member that the columns object
  inherits from \<^verbatim>\<open>Object.prototype\<close>.
\<close>

fun where_loop :: "row \<Rightarrow> table_def \<Rightarrow> sql_condition list \<Rightarrow> sql_condition list" where
  "where_loop [] t conds = conds"
| "where_loop ((key, v) # rest) t conds =
     (case map_of (columns t) key of
        Some c \<Rightarrow> where_loop rest t (conds @ [eq_cond c v])
      | None \<Rightarrow>
          if key \<in> set object_prototype_keys
          then where_loop rest t (conds @ [eq_cond inherited_as_column v])
          else where_loop rest t conds)"

definition QueryChain_where :: "query_chain \<Rightarrow> row \<Rightarrow> query_chain" where
  "QueryChain_where this conditions =
     \<lparr>qc_table = qc_table this,
      qc_conditions = where_loop conditions (qc_table this) (qc_conditions this),
      qc_orderByList = qc_orderByList this, qc_limitValue = qc_limitValue this,
      qc_offsetValue = qc_offsetValue this\<rparr>"

definition QueryChain_orderBy :: "query_chain \<Rightarrow> string \<Rightarrow> direction \<Rightarrow> query_chain" where
  "QueryChain_orderBy this col dir =
     \<lparr>qc_table = qc_table this, qc_conditions = qc_conditions this,
      qc_orderByList = qc_orderByList this @ [(col, dir)],
      qc_limitValue = qc_limitValue this, qc_offsetValue = qc_offsetValue this\<rparr>"

definition QueryChain_limit :: "query_chain \<Rightarrow> int \<Rightarrow> query_chain" where
  "QueryChain_limit this n =
     \<lparr>qc_table = qc_table this, qc_conditions = qc_conditions this,
      qc_orderByList = qc_orderByList this, qc_limitValue = Some n,
      qc_offsetValue = qc_offsetValue this\<rparr>"

definition QueryChain_offset :: "query_chain \<Rightarrow> int \<Rightarrow> query_chain" where
  "QueryChain_offset this n =
     \<lparr>qc_table = qc_table this, qc_conditions = qc_conditions this,
      qc_orderByList = qc_orderByList this, qc_limitValue = qc_limitValue this,
      qc_offsetValue = Some n\<rparr>"

definition QueryChain_toSQL :: "query_chain \<Rightarrow> statement" where
  "QueryChain_toSQL this =
     (let parts0 = [''SELECT * FROM '' @ quote_ident (tableName (qc_table this))];
          (parts1, params1) =
            (if length (qc_conditions this) > 0
             then (let combined =
                         (if length (qc_conditions this) = 1 then hd (qc_conditions this)
                          else and_cond (qc_conditions this));
                       result = cond_toSQL combined 1
                   in (parts0 @ [''WHERE '' @ sql result], params result))
             else (parts0, []));
          parts2 =
            (if length (qc_orderByList this) > 0
             then parts1 @ [''ORDER BY '' @ join '', ''
                    (map (\<lambda>(col, dir). quote_ident (dbColumnName (qc_table this) col) @ '' ''
                                        @ toUpperCase (direction_str dir))
                       (qc_orderByList this))]
             else parts1);
          parts3 =
            (case qc_limitValue this of
               None \<Rightarrow> parts2
             | Some n \<Rightarrow> parts2 @ [''LIMIT '' @ number_toString n]);
          parts4 =
            (case qc_offsetValue this of
               None \<Rightarrow> parts3
             | Some n \<Rightarrow> parts3 @ [''OFFSET '' @ number_toString n])
      in \<lparr>sql = join '' '' parts4, params = params1\<rparr>)"

definition QueryChain_all :: "query_chain \<Rightarrow> world \<Rightarrow> (js_error + row list) \<times> world" where
  "QueryChain_all this w =
     (let st = QueryChain_toSQL this
      in case tanaDb w of
           None \<Rightarrow> (Inl (Error ''Tana DB runtime not initialized''), w)
         | Some rt \<Rightarrow> runtime_query rt (sql st) (params st) w)"

text \<open>\<^verbatim>\<open>results[0] ?? null\<close>, with \<open>None\<close> for \<^verbatim>\<open>null\<close>.\<close>

definition QueryChain_first :: "query_chain \<Rightarrow> world \<Rightarrow> (js_error + row option) \<times> world" where
  "QueryChain_first this w =
     (case QueryChain_all (QueryChain_limit this 1) w of
        (Inl e, w') \<Rightarrow> (Inl e, w')
      | (Inr results, w') \<Rightarrow>
          (case results of [] \<Rightarrow> (Inr None, w') | r # _ \<Rightarrow> (Inr (Some r), w')))"

subsection \<open>Model instances\<close>

record model_instance =
  inst_attributes :: row
  inst_table :: table_def
  inst_persisted :: bool

definition createInstance :: "table_def \<Rightarrow> row \<Rightarrow> bool \<Rightarrow> model_instance" where
  "createInstance t attributes persisted =
     \<lparr>inst_attributes = attributes, inst_table = t, inst_persisted = persisted\<rparr>"

text \<open>
  The instance is handed out behind a proxy, and its methods run with \<^verbatim>\<open>this\<close> bound to
  that proxy. The \<^verbatim>\<open>set\<close> trap stores a value only under a key \<^verbatim>\<open>in target._attributes\<close>
  and returns \<^verbatim>\<open>false\<close> otherwise, which in module (strict) code makes the assignment
  throw a \<^verbatim>\<open>TypeError\<close>. The methods assign \<^verbatim>\<open>_attributes\<close> and \<^verbatim>\<open>_persisted\<close> only,
  names that \<^verbatim>\<open>Object.prototype\<close> does not have, so \<^verbatim>\<open>in\<close> finds them among the own
  keys or not at all.
\<close>

definition proxy_set :: "model_instance \<Rightarrow> string \<Rightarrow> js_value \<Rightarrow> js_error + model_instance" where
  "proxy_set inst prop v =
     (if prop \<in> fst ` set (inst_attributes inst)
      then Inr (inst\<lparr>inst_attributes :=
                  map (\<lambda>(k, x). if k = prop then (k, v) else (k, x)) (inst_attributes inst)\<rparr>)
      else Inl TypeError)"

text \<open>
  The primary-key search that opens \<^verbatim>\<open>update\<close>, \<^verbatim>\<open>destroy\<close> and \<^verbatim>\<open>reload\<close>: the first
  column whose metadata has \<^verbatim>\<open>isPrimaryKey\<close> gives \<^verbatim>\<open>pkColumn\<close> and \<^verbatim>\<open>pkValue\<close>.
\<close>

fun find_pk :: "(string \<times> column) list \<Rightarrow> row \<Rightarrow> string option \<times> js_value" where
  "find_pk [] attrs = (None, Undefined)"
| "find_pk ((key, col) # rest) attrs =
     (if isPrimaryKeyFlag col then (Some key, get_prop attrs key) else find_pk rest attrs)"

text \<open>\<^verbatim>\<open>!pkColumn\<close>: \<^verbatim>\<open>undefined\<close> and the empty string are falsy.\<close>

fun falsy_key :: "string option \<Rightarrow> bool" where
  "falsy_key None = True"
| "falsy_key (Some k) = (k = [])"

text \<open>
  Each method returns its outcome, the instance afterwards and the world afterwards. A
  primary-key name with no entry in \<^verbatim>\<open>columns\<close> cannot come out of the search; there
  \<^verbatim>\<open>eq(undefined, pkValue)\<close> would fail with a \<^verbatim>\<open>TypeError\<close> when compiled.
\<close>

definition instance_update ::
  "model_instance \<Rightarrow> row \<Rightarrow> world \<Rightarrow> (js_error + unit) \<times> model_instance \<times> world" where
  "instance_update this attrs w =
     (let t = inst_table this;
          (pkColumn, pkValue) = find_pk (columns t) (inst_attributes this)
      in if falsy_key pkColumn then (Inl (Error ''Cannot update: no primary key defined''), this, w)
         else
           (case map_of (columns t) (the pkColumn) of
              None \<Rightarrow> (Inl TypeError, this, w)
            | Some pkColumnBuilder \<Rightarrow>
                (let query = UpdateQueryBuilder_returning
                               (UpdateQueryBuilder_where
                                  (UpdateQueryBuilder_set (db_update t) attrs)
                                  (eq_cond pkColumnBuilder pkValue))
                 in case UpdateQueryBuilder_execute query w of
                      (Inl e, w') \<Rightarrow> (Inl e, this, w')
                    | (Inr results, w') \<Rightarrow>
                        (if length results > 0
                         then (case proxy_set this ''_attributes'' (Object (hd results)) of
                                 Inl e \<Rightarrow> (Inl e, this, w')
                               | Inr this' \<Rightarrow> (Inr (), this', w'))
                         else (Inr (), this, w')))))"

definition instance_destroy ::
  "model_instance \<Rightarrow> world \<Rightarrow> (js_error + unit) \<times> model_instance \<times> world" where
  "instance_destroy this w =
     (let t = inst_table this;
          (pkColumn, pkValue) = find_pk (columns t) (inst_attributes this)
      in if falsy_key pkColumn then (Inl (Error ''Cannot delete: no primary key defined''), this, w)
         else
           (case map_of (columns t) (the pkColumn) of
              None \<Rightarrow> (Inl TypeError, this, w)
            | Some pkColumnBuilder \<Rightarrow>
                (case DeleteQueryBuilder_execute
                        (DeleteQueryBuilder_where (db_delete t) (eq_cond pkColumnBuilder pkValue)) w of
                   (Inl e, w') \<Rightarrow> (Inl e, this, w')
                 | (Inr results, w') \<Rightarrow>
                     (case proxy_set this ''_persisted'' (Bool False) of
                        Inl e \<Rightarrow> (Inl e, this, w')
                      | Inr this' \<Rightarrow> (Inr (), this', w')))))"

definition instance_reload ::
  "model_instance \<Rightarrow> world \<Rightarrow> (js_error + unit) \<times> model_instance \<times> world" where
  "instance_reload this w =
     (let t = inst_table this;
          (pkColumn, pkValue) = find_pk (columns t) (inst_attributes this)
      in if falsy_key pkColumn then (Inl (Error ''Cannot reload: no primary key defined''), this, w)
         else
           (case map_of (columns t) (the pkColumn) of
              None \<Rightarrow> (Inl TypeError, this, w)
            | Some pkColumnBuilder \<Rightarrow>
                (case SelectQueryBuilder_execute
                        (SelectQueryBuilder_where (SelectQueryBuilder_from (db_select None) t)
                           (eq_cond pkColumnBuilder pkValue)) w of
                   (Inl e, w') \<Rightarrow> (Inl e, this, w')
                 | (Inr results, w') \<Rightarrow>
                     (if length results = 0 then (Inl (Error ''Record not found''), this, w')
                      else (case proxy_set this ''_attributes'' (Object (hd results)) of
                              Inl e \<Rightarrow> (Inl e, this, w')
                            | Inr this' \<Rightarrow> (Inr (), this', w'))))))"

subsection \<open>The model\<close>

definition model_where :: "table_def \<Rightarrow> row \<Rightarrow> query_chain" where
  "model_where t attrs = QueryChain_where (new_QueryChain t) attrs"

text \<open>
  \<^verbatim>\<open>findBy\<close>: \<^verbatim>\<open>null\<close> (\<open>None\<close>) when \<^verbatim>\<open>first()\<close> gives nothing, else the row wrapped by
  \<^verbatim>\<open>createInstance\<close> with its default \<^verbatim>\<open>persisted = true\<close>.
\<close>

definition model_findBy ::
  "table_def \<Rightarrow> row \<Rightarrow> world \<Rightarrow> (js_error + model_instance option) \<times> world" where
  "model_findBy t attrs w =
     (let chain = new_QueryChain t
      in case QueryChain_first (QueryChain_where chain attrs) w of
           (Inl e, w') \<Rightarrow> (Inl e, w')
         | (Inr None, w') \<Rightarrow> (Inr None, w')
         | (Inr (Some result), w') \<Rightarrow> (Inr (Some (createInstance t result True)), w'))"

definition model_build :: "table_def \<Rightarrow> row \<Rightarrow> model_instance" where
  "model_build t attrs = createInstance t attrs False"


section \<open>What the model layer's conditions should look like\<close>

text \<open>
  Three definitions written from the specification's words, to compare the code against:
  the supplied attributes whose key names a column of the table (each with its column and
  value), the equality predicates \<^verbatim>\<open>"column" = $n\<close> numbered from \<open>n\<close>, and the
  \<^verbatim>\<open>WHERE\<close> text they make (none, one bare predicate, or a parenthesised conjunction).
\<close>

fun column_attrs :: "table_def \<Rightarrow> row \<Rightarrow> (column \<times> js_value) list" where
  "column_attrs t [] = []"
| "column_attrs t ((key, v) # rest) =
     (case map_of (columns t) key of
        None \<Rightarrow> column_attrs t rest
      | Some c \<Rightarrow> (c, v) # column_attrs t rest)"

fun eq_predicates :: "(column \<times> js_value) list \<Rightarrow> int \<Rightarrow> string list" where
  "eq_predicates [] n = []"
| "eq_predicates ((c, v) # rest) n =
     (quote_ident (columnName c) @ '' = '' @ placeholder n) # eq_predicates rest (n + 1)"

definition where_text :: "(column \<times> js_value) list \<Rightarrow> string" where
  "where_text cvs =
     (case eq_predicates cvs 1 of
        [] \<Rightarrow> []
      | [p] \<Rightarrow> '' WHERE '' @ p
      | p # q # ps \<Rightarrow> '' WHERE ('' @ join '' AND '' (p # q # ps) @ '')'')"


section \<open>The scenario of the specification\<close>

text \<open>
  The table \<^verbatim>\<open>posts\<close> with \<^verbatim>\<open>id\<close> (uuid, primary key), \<^verbatim>\<open>title\<close> (text, not null) and
  \<^verbatim>\<open>published\<close> (boolean, default false); a table without a primary key; a model
  instance; and gateways that answer every query with no row, or with one row.
\<close>

definition posts_id :: column where
  "posts_id = primaryKey (uuid_col ''id'')"

definition posts_title :: column where
  "posts_title = notNull (text_col ''title'')"

definition posts_published :: column where
  "posts_published = default_to (boolean_col ''published'') (Bool False)"

definition posts :: table_def where
  "posts = table ''posts''
     [(''id'', posts_id), (''title'', posts_title), (''published'', posts_published)]"

text \<open>A table whose property \<^verbatim>\<open>readTime\<close> is stored in the column \<^verbatim>\<open>read_time\<close>.\<close>

definition articles :: table_def where
  "articles = table ''articles''
     [(''title'', notNull (text_col ''title'')), (''readTime'', integer_col ''read_time'')]"

definition memos :: table_def where
  "memos = table ''memos'' [(''body'', text_col ''body'')]"

definition post1 :: model_instance where
  "post1 = createInstance posts
     [(''id'', Str ''p1''), (''title'', Str ''Hello''), (''published'', Bool False)] True"

definition empty_runtime :: runtime where
  "empty_runtime =
     \<lparr>rt_query = (\<lambda>h s ps. Inr []), rt_execute = (\<lambda>h s ps. Inr 0),
      rt_executeReturning = (\<lambda>h s ps. Inr [])\<rparr>"

definition one_post_runtime :: runtime where
  "one_post_runtime =
     \<lparr>rt_query = (\<lambda>h s ps.
        Inr [[(''id'', Str ''p1''), (''title'', Str ''Hello''), (''published'', Bool True)]]),
      rt_execute = (\<lambda>h s ps. Inr 0),
      rt_executeReturning = (\<lambda>h s ps. Inr [])\<rparr>"

definition world0 :: world where
  "world0 = \<lparr>tanaDb = Some empty_runtime, calls = []\<rparr>"

text \<open>A heap holding the builder \<^verbatim>\<open>db.select().from(posts)\<close> at address 3.\<close>

definition posts_heap :: heap where
  "posts_heap =
     [JoinArray [], OrderArray [], ColumnArray [],
      BuilderObj \<lparr>o_from = Some posts, o_select = Star, o_where = None, o_joins = 0,
                  o_orderBy = 1, o_groupBy = 2, o_limit = None, o_offset = None\<rparr>]"

text \<open>
  \<^verbatim>\<open>db.select().from(posts).where(eq(posts.published, true)).orderBy(...).limit(10).toSQL()\<close>
  with the arguments of \<^verbatim>\<open>orderBy\<close> left open; an exception thrown by \<^verbatim>\<open>orderBy\<close> ends
  the chain.
\<close>

definition select_scenario :: "order_arg list \<Rightarrow> js_error + statement" where
  "select_scenario orders =
     (case SelectQueryBuilder_orderBy
             (SelectQueryBuilder_where (SelectQueryBuilder_from (db_select None) posts)
                (eq_cond posts_published (Bool True)))
             orders of
        Inl e \<Rightarrow> Inl e
      | Inr b \<Rightarrow> SelectQueryBuilder_toSQL (SelectQueryBuilder_limit b 10))"

lemmas schema_defs = posts_def posts_id_def posts_title_def posts_published_def memos_def
  articles_def integer_col_def
  table_def primaryKey_def notNull_def default_to_def uuid_col_def text_col_def
  boolean_col_def new_ColumnBuilder_def

lemmas render_defs = quote_ident_def placeholder_def number_toString_def string_of_nat.simps
  digit_char_def js_add_def round_double_def
  toUpperCase_def upper_char_def placeholders_def dbColumnName_def get_prop_def


section \<open>Parameter threading through condition trees\<close>

text \<open>The loop only ever appends to its accumulators.\<close>

lemma cond_loop_acc:
  "cond_loop cs parts ps idx =
     (parts @ fst (cond_loop cs [] [] idx),
      ps @ fst (snd (cond_loop cs [] [] idx)),
      snd (snd (cond_loop cs [] [] idx)))"
proof (induction cs arbitrary: parts ps idx)
  case Nil
  show ?case by simp
next
  case (Cons c cs)
  let ?r = "cond_toSQL c idx"
  have a: "cond_loop (c # cs) parts ps idx
        = cond_loop cs (parts @ [sql ?r]) (ps @ params ?r) (nextIndex ?r)"
    by (simp add: Let_def)
  have b: "cond_loop (c # cs) [] [] idx = cond_loop cs [sql ?r] (params ?r) (nextIndex ?r)"
    by (simp add: Let_def)
  show ?case
    unfolding a b
    by (subst Cons.IH, subst (2 3 4) Cons.IH) simp
qed

lemma cond_loop_Cons_params:
  "fst (snd (cond_loop (c # cs) [] [] k)) =
     params (cond_toSQL c k) @ fst (snd (cond_loop cs [] [] (nextIndex (cond_toSQL c k))))"
  by (simp add: Let_def cond_loop_acc [of cs "[sql (cond_toSQL c k)]"])

lemma cond_loop_Cons_next:
  "snd (snd (cond_loop (c # cs) [] [] k)) =
     snd (snd (cond_loop cs [] [] (nextIndex (cond_toSQL c k))))"
  by (simp add: Let_def cond_loop_acc [of cs "[sql (cond_toSQL c k)]"])

lemma cond_loop_Cons_parts:
  "fst (cond_loop (c # cs) [] [] k) =
     sql (cond_toSQL c k) # fst (cond_loop cs [] [] (nextIndex (cond_toSQL c k)))"
  by (simp add: Let_def cond_loop_acc [of cs "[sql (cond_toSQL c k)]"])

lemma AndExpr_params: "params (cond_toSQL (AndExpr cs) k) = fst (snd (cond_loop cs [] [] k))"
  by (simp split: prod.splits)

lemma AndExpr_next: "nextIndex (cond_toSQL (AndExpr cs) k) = snd (snd (cond_loop cs [] [] k))"
  by (simp split: prod.splits)

lemma OrExpr_params: "params (cond_toSQL (OrExpr cs) k) = fst (snd (cond_loop cs [] [] k))"
  by (simp split: prod.splits)

lemma OrExpr_next: "nextIndex (cond_toSQL (OrExpr cs) k) = snd (snd (cond_loop cs [] [] k))"
  by (simp split: prod.splits)

text \<open>Sums up to \<open>2\<^sup>5\<^sup>3\<close> in magnitude are exact.\<close>

lemma js_add_exact:
  "\<bar>a + b\<bar> \<le> 9007199254740992 \<Longrightarrow> js_add a b = a + b"
  by (simp add: js_add_def round_double_def)







text \<open>
  Claim C7. For any conditions \<open>a\<close>, \<open>b\<close>, \<open>c\<close> and any start index \<open>k\<close>, \<open>and(a, b, c)\<close>
  and \<open>and(and(a, b), c)\<close> compile at \<open>k\<close> to the same parameters in the same order and
  to the same next index; likewise for \<open>or\<close>.
\<close>

theorem and_or_params_associative:
  "params (cond_toSQL (and_cond [a, b, c]) k)
     = params (cond_toSQL (and_cond [and_cond [a, b], c]) k)
   \<and> nextIndex (cond_toSQL (and_cond [a, b, c]) k)
     = nextIndex (cond_toSQL (and_cond [and_cond [a, b], c]) k)
   \<and> params (cond_toSQL (or_cond [a, b, c]) k)
     = params (cond_toSQL (or_cond [or_cond [a, b], c]) k)
   \<and> nextIndex (cond_toSQL (or_cond [a, b, c]) k)
     = nextIndex (cond_toSQL (or_cond [or_cond [a, b], c]) k)"
  unfolding and_cond_def or_cond_def AndExpr_params AndExpr_next OrExpr_params OrExpr_next
    cond_loop_Cons_params cond_loop_Cons_next
  by simp

text \<open>
  Claim C10. For every column and every start index \<open>k\<close>, \<open>inArray(column, [])\<close>
  compiles without any error to the text \<^verbatim>\<open>"<physicalName>" IN ()\<close>, an empty parameter
  list and \<open>nextIndex = k\<close>.
\<close>

theorem inArray_empty_compiles:
  "cond_toSQL (inArray col []) k =
     \<lparr>sql = quote_ident (columnName col) @ '' IN ()'', params = [], nextIndex = k\<rparr>"
  by (simp add: inArray_def placeholders_def js_add_def)


section \<open>The select scenario\<close>

text \<open>
  Claim C2, as stated, fails: \<^verbatim>\<open>orderBy(posts.title, 'desc')\<close> passes the column and the
  string \<^verbatim>\<open>'desc'\<close> as two order arguments, and \<^verbatim>\<open>'direction' in 'desc'\<close> throws a
  \<^verbatim>\<open>TypeError\<close> inside \<^verbatim>\<open>orderBy\<close>, so the chain never reaches \<^verbatim>\<open>toSQL()\<close>.
\<close>

theorem select_scenario_as_written_throws:
  \<open>select_scenario [ColumnArg posts_title, StringArg ''desc''] = Inl TypeError
   \<and> select_scenario [ColumnArg posts_title, StringArg ''desc'']
       \<noteq> Inr \<lparr>sql = ''SELECT * FROM "posts" WHERE "published" = $1 ORDER BY "title" DESC LIMIT 10'',
               params = [Bool True]\<rparr>\<close>
  by (simp add: select_scenario_def SelectQueryBuilder_orderBy_def)

text \<open>
  Claim C2, amended. With the order given as the descriptor \<^verbatim>\<open>desc(posts.title)\<close>, the
  chained call returns the statement of the claim and the parameters \<^verbatim>\<open>[true]\<close>.
\<close>

theorem select_scenario_with_desc:
  \<open>select_scenario [OrderArg (desc posts_title)]
   = Inr \<lparr>sql = ''SELECT * FROM "posts" WHERE "published" = $1 ORDER BY "title" DESC LIMIT 10'',
          params = [Bool True]\<rparr>\<close>
  by (simp add: select_scenario_def SelectQueryBuilder_toSQL_def SelectQueryBuilder_limit_def
      SelectQueryBuilder_orderBy_def SelectQueryBuilder_where_def SelectQueryBuilder_from_def
      db_select_def SelectQueryBuilder_select_def new_SelectQueryBuilder_def eq_cond_def desc_def
      schema_defs render_defs)


section \<open>The insert statement\<close>

lemma join_nonempty:
  "xs \<noteq> [] \<Longrightarrow> last xs \<noteq> [] \<Longrightarrow> join sep xs \<noteq> []"
  by (induction sep xs rule: join.induct) auto

lemma last_join:
  "xs \<noteq> [] \<Longrightarrow> last xs \<noteq> [] \<Longrightarrow> last (join sep xs) = last (last xs)"
proof (induction sep xs rule: join.induct)
  case (3 sep x y ys)
  then have "join sep (y # ys) \<noteq> []" by (intro join_nonempty) auto
  with 3 show ?case by simp
qed auto

text \<open>With at least one row, the last placeholder group closes the statement text.\<close>

lemma valueLists_loop_last:
  "rows \<noteq> [] \<Longrightarrow>
     fst (valueLists_loop rows propNames acc ps k) \<noteq> []
     \<and> last (fst (valueLists_loop rows propNames acc ps k)) \<noteq> []
     \<and> last (last (fst (valueLists_loop rows propNames acc ps k))) = CHR '')''"
proof (induction rows arbitrary: acc ps k)
  case Nil
  then show ?case by simp
next
  case (Cons r rows)
  show ?case
  proof (cases rows)
    case Nil
    then show ?thesis by (simp split: prod.splits)
  next
    case (Cons r' rows')
    then have "rows \<noteq> []" by simp
    from Cons.IH [OF this] show ?thesis by (simp split: prod.splits)
  qed
qed

text \<open>
  Claim C4. On the table \<^verbatim>\<open>posts\<close>, \<^verbatim>\<open>db.insert(posts).values({title: 'Hello'}).returning().toSQL()\<close>
  returns \<^verbatim>\<open>INSERT INTO "posts" ("title") VALUES ($1) RETURNING *\<close> with parameters
  \<^verbatim>\<open>['Hello']\<close>. The column list comes from the keys of the first row, each mapped through
  the table to its physical column name: on \<^verbatim>\<open>articles\<close> the key \<^verbatim>\<open>readTime\<close> is emitted
  as \<^verbatim>\<open>"read_time"\<close>, and for every insert builder with at least one row the statement
  opens with the list that names, for each key of the first row, the column the table holds
  under that key (the key itself when the table has none, or one with an empty name). The
  statement ends in \<^verbatim>\<open>RETURNING *\<close> exactly when \<^verbatim>\<open>returning()\<close> set the flag.
\<close>

theorem insert_toSQL_scenario:
  assumes "ib_values this = first # rest"
  shows \<open>InsertQueryBuilder_toSQL
           (InsertQueryBuilder_returning
              (InsertQueryBuilder_values (db_insert posts) (OneRow [(''title'', Str ''Hello'')])))
         = Inr \<lparr>sql = ''INSERT INTO "posts" ("title") VALUES ($1) RETURNING *'',
                params = [Str ''Hello'']\<rparr>
       \<and> InsertQueryBuilder_toSQL
           (InsertQueryBuilder_values (db_insert articles)
              (OneRow [(''title'', Str ''Hello''), (''readTime'', Num 5)]))
         = Inr \<lparr>sql = ''INSERT INTO "articles" ("title", "read_time") VALUES ($1, $2)'',
                params = [Str ''Hello'', Num 5]\<rparr>
       \<and> (\<exists>st. InsertQueryBuilder_toSQL this = Inr st
             \<and> prefix (''INSERT INTO '' @ quote_ident (tableName (ib_table this)) @ '' (''
                        @ join '', ''
                            (map (\<lambda>prop. quote_ident
                                    (case map_of (columns (ib_table this)) prop of
                                       None \<Rightarrow> prop
                                     | Some c \<Rightarrow> if columnName c = [] then prop
                                                 else columnName c))
                               (map fst first))
                        @ '') VALUES '') (sql st)
             \<and> (suffix '' RETURNING *'' (sql st) \<longleftrightarrow> ib_returning this))\<close>
proof -
  have concrete: \<open>InsertQueryBuilder_toSQL
           (InsertQueryBuilder_returning
              (InsertQueryBuilder_values (db_insert posts) (OneRow [(''title'', Str ''Hello'')])))
         = Inr \<lparr>sql = ''INSERT INTO "posts" ("title") VALUES ($1) RETURNING *'',
                params = [Str ''Hello'']\<rparr>\<close>
    by (simp add: InsertQueryBuilder_toSQL_def InsertQueryBuilder_returning_def
      InsertQueryBuilder_values_def db_insert_def new_InsertQueryBuilder_def
      schema_defs render_defs)
  have renamed: \<open>InsertQueryBuilder_toSQL
           (InsertQueryBuilder_values (db_insert articles)
              (OneRow [(''title'', Str ''Hello''), (''readTime'', Num 5)]))
         = Inr \<lparr>sql = ''INSERT INTO "articles" ("title", "read_time") VALUES ($1, $2)'',
                params = [Str ''Hello'', Num 5]\<rparr>\<close>
    by (simp add: InsertQueryBuilder_toSQL_def
      InsertQueryBuilder_values_def db_insert_def new_InsertQueryBuilder_def
      schema_defs render_defs)
  let ?head = "''INSERT INTO '' @ quote_ident (tableName (ib_table this)) @ '' (''
                 @ join '', ''
                     (map (\<lambda>prop. quote_ident
                             (case map_of (columns (ib_table this)) prop of
                                None \<Rightarrow> prop
                              | Some c \<Rightarrow> if columnName c = [] then prop else columnName c))
                        (map fst first))
                 @ '') VALUES ''"
  obtain vls ps k where loop:
    "valueLists_loop (first # rest) (map fst first) [] [] 1 = (vls, ps, k)"
    by (cases "valueLists_loop (first # rest) (map fst first) [] [] 1") auto
  from valueLists_loop_last [of "first # rest" "map fst first" "[]" "[]" 1] loop
  have vls: "vls \<noteq> []" "last vls \<noteq> []" "last (last vls) = CHR '')''" by simp_all
  let ?body = "?head @ join '', '' vls"
  have body_ne: "join '', '' vls \<noteq> []" using vls by (simp add: join_nonempty)
  have body_last: "last ?body = CHR '')''"
    using vls body_ne by (simp add: last_join)
  have toSQL: "InsertQueryBuilder_toSQL this =
      Inr \<lparr>sql = (if ib_returning this then ?body @ '' RETURNING *'' else ?body), params = ps\<rparr>"
    using assms loop
    by (simp add: InsertQueryBuilder_toSQL_def Let_def comp_def dbColumnName_def)
  have no_suffix: "\<not> suffix '' RETURNING *'' ?body"
  proof
    assume "suffix '' RETURNING *'' ?body"
    then obtain zs where "?body = zs @ '' RETURNING *''" by (auto simp: suffix_def)
    then have "last ?body = last (zs @ '' RETURNING *'')" by simp
    with body_last show False by simp
  qed
  have general: "\<exists>st. InsertQueryBuilder_toSQL this = Inr st
             \<and> prefix ?head (sql st)
             \<and> (suffix '' RETURNING *'' (sql st) \<longleftrightarrow> ib_returning this)"
  proof (cases "ib_returning this")
    case True
    with toSQL show ?thesis by (simp add: suffix_def)
  next
    case False
    with toSQL no_suffix show ?thesis by simp
  qed
  from concrete renamed general show ?thesis by blast
qed

theorem insert_toSQL_scenario_witness:
  \<open>\<exists>st. InsertQueryBuilder_toSQL
            (InsertQueryBuilder_values (db_insert articles)
               (OneRow [(''title'', Str ''Hello''), (''readTime'', Num 5)]))
          = Inr st
        \<and> prefix ''INSERT INTO "articles" ("title", "read_time") VALUES '' (sql st)
        \<and> \<not> suffix '' RETURNING *'' (sql st)\<close>
proof -
  let ?row = "[(''title'', Str ''Hello''), (''readTime'', Num 5)]"
  let ?b = "InsertQueryBuilder_values (db_insert articles) (OneRow ?row)"
  have h: "ib_values ?b = ?row # []"
    by (simp add: InsertQueryBuilder_values_def)
  have tbl: "ib_table ?b = articles" and flag: "\<not> ib_returning ?b"
    by (simp_all add: InsertQueryBuilder_values_def db_insert_def new_InsertQueryBuilder_def)
  have head: \<open>''INSERT INTO '' @ quote_ident (tableName articles) @ '' (''
           @ join '', ''
               (map (\<lambda>prop. quote_ident
                       (case map_of (columns articles) prop of
                          None \<Rightarrow> prop
                        | Some c \<Rightarrow> if columnName c = [] then prop else columnName c))
                  (map fst ?row))
           @ '') VALUES ''
         = ''INSERT INTO "articles" ("title", "read_time") VALUES ''\<close>
    by (simp add: schema_defs quote_ident_def)
  from insert_toSQL_scenario [OF h]
  obtain st where "InsertQueryBuilder_toSQL ?b = Inr st"
    and "prefix (''INSERT INTO '' @ quote_ident (tableName (ib_table ?b)) @ '' (''
           @ join '', ''
               (map (\<lambda>prop. quote_ident
                       (case map_of (columns (ib_table ?b)) prop of
                          None \<Rightarrow> prop
                        | Some c \<Rightarrow> if columnName c = [] then prop else columnName c))
                  (map fst ?row))
           @ '') VALUES '') (sql st)"
    and "suffix '' RETURNING *'' (sql st) \<longleftrightarrow> ib_returning ?b"
    by blast
  then show ?thesis
    unfolding tbl head using flag by blast
qed

section \<open>Structural errors come before the gateway\<close>

text \<open>
  Claim C5. A select builder with no table bound by \<^verbatim>\<open>from\<close>, an insert builder with an
  empty list of rows, and an update builder whose assignment object has no keys each make
  \<^verbatim>\<open>toSQL()\<close> throw; \<^verbatim>\<open>execute()\<close> then fails with the same error and leaves the world,
  and with it the record of gateway calls, as it was: \<^verbatim>\<open>query\<close>, \<^verbatim>\<open>execute\<close> and
  \<^verbatim>\<open>executeReturning\<close> are not invoked.
\<close>

theorem structural_errors_before_gateway:
  assumes "sb_from sb = None" and "ib_values ib = []" and "map fst (ub_set ub) = []"
  shows "SelectQueryBuilder_toSQL sb = Inl (Error ''FROM clause is required'')
       \<and> SelectQueryBuilder_execute sb w = (Inl (Error ''FROM clause is required''), w)
       \<and> InsertQueryBuilder_toSQL ib = Inl (Error ''No values to insert'')
       \<and> InsertQueryBuilder_execute ib w = (Inl (Error ''No values to insert''), w)
       \<and> UpdateQueryBuilder_toSQL ub = Inl (Error ''No columns to update'')
       \<and> UpdateQueryBuilder_execute ub w = (Inl (Error ''No columns to update''), w)"
  using assms
  by (simp add: SelectQueryBuilder_toSQL_def SelectQueryBuilder_execute_def
      InsertQueryBuilder_toSQL_def InsertQueryBuilder_execute_def
      UpdateQueryBuilder_toSQL_def UpdateQueryBuilder_execute_def)

theorem structural_errors_before_gateway_witness:
  "sb_from (db_select None) = None \<and> ib_values (db_insert posts) = []
   \<and> map fst (ub_set (db_update posts)) = []
   \<and> SelectQueryBuilder_execute (db_select None) world0
       = (Inl (Error ''FROM clause is required''), world0)
   \<and> InsertQueryBuilder_execute (db_insert posts) world0
       = (Inl (Error ''No values to insert''), world0)
   \<and> UpdateQueryBuilder_execute (db_update posts) world0
       = (Inl (Error ''No columns to update''), world0)"
proof -
  have a: "sb_from (db_select None) = None"
    by (simp add: db_select_def SelectQueryBuilder_select_def new_SelectQueryBuilder_def)
  have b: "ib_values (db_insert posts) = []"
    by (simp add: db_insert_def new_InsertQueryBuilder_def)
  have c: "map fst (ub_set (db_update posts)) = []"
    by (simp add: db_update_def new_UpdateQueryBuilder_def)
  show ?thesis
    using structural_errors_before_gateway [OF a b c, of world0] a b c by simp
qed


section \<open>The equality conditions of the model layer\<close>

text \<open>
  When no supplied key reaches a member inherited from \<^verbatim>\<open>Object.prototype\<close>, the loop
  adds exactly the equalities of the keys that name a column.
\<close>

lemma where_loop_column_attrs:
  assumes "\<forall>k \<in> fst ` set attrs. k \<in> set object_prototype_keys \<longrightarrow> k \<in> fst ` set (columns t)"
  shows "where_loop attrs t conds = conds @ map (\<lambda>(c, v). eq_cond c v) (column_attrs t attrs)"
  using assms
proof (induction attrs t conds rule: where_loop.induct)
  case (1 t conds)
  show ?case by simp
next
  case (2 key v rest t conds)
  show ?case
  proof (cases "map_of (columns t) key")
    case None
    then have "key \<notin> fst ` set (columns t)"
      by (simp add: map_of_eq_None_iff)
    with 2(4) have "key \<notin> set object_prototype_keys" by auto
    with None 2 show ?thesis by simp
  next
    case (Some c)
    with 2 show ?thesis by simp
  qed
qed

lemma cond_loop_eq_conds:
  "0 \<le> idx \<Longrightarrow> idx + int (length cvs) \<le> 9007199254740992 \<Longrightarrow>
   cond_loop (map (\<lambda>(c, v). eq_cond c v) cvs) parts ps idx =
     (parts @ eq_predicates cvs idx, ps @ map snd cvs, idx + int (length cvs))"
proof (induction cvs arbitrary: parts ps idx)
  case Nil
  show ?case by simp
next
  case (Cons cv cvs)
  obtain c v where cv: "cv = (c, v)" by (cases cv)
  have step: "js_add idx 1 = idx + 1"
    using Cons.prems by (intro js_add_exact) simp
  have "cond_loop (map (\<lambda>(c, v). eq_cond c v) cvs)
          (parts @ [quote_ident (columnName c) @ '' = '' @ placeholder idx]) (ps @ [v]) (idx + 1)
        = ((parts @ [quote_ident (columnName c) @ '' = '' @ placeholder idx])
             @ eq_predicates cvs (idx + 1),
           (ps @ [v]) @ map snd cvs, (idx + 1) + int (length cvs))"
    using Cons.prems by (intro Cons.IH) simp_all
  then show ?case
    by (simp add: cv eq_cond_def Let_def step)
qed

lemma column_attrs_all:
  "\<forall>k \<in> fst ` set attrs. k \<in> fst ` set (columns t) \<Longrightarrow>
     length (column_attrs t attrs) = length attrs"
proof (induction attrs)
  case Nil
  show ?case by simp
next
  case (Cons a attrs)
  obtain k v where a: "a = (k, v)" by (cases a)
  with Cons.prems have "k \<in> fst ` set (columns t)" by simp
  then obtain c where "map_of (columns t) k = Some c"
    by (metis domD dom_map_of_conv_image_fst)
  with Cons a show ?case by simp
qed

lemma length_column_attrs: "length (column_attrs t attrs) \<le> length attrs"
  by (induction t attrs rule: column_attrs.induct) (auto split: option.splits)

lemma length_eq_predicates: "length (eq_predicates cvs n) = length cvs"
  by (induction cvs n rule: eq_predicates.induct) auto

text \<open>A chain whose conditions are equalities, with no ordering and no offset.\<close>

lemma QueryChain_toSQL_eq_conds:
  assumes conds: "qc_conditions ch = map (\<lambda>(c, v). eq_cond c v) cvs"
      and ord: "qc_orderByList ch = []"
      and off: "qc_offsetValue ch = None"
      and len: "int (length cvs) < 9007199254740992"
  shows "QueryChain_toSQL ch =
     \<lparr>sql = ''SELECT * FROM '' @ quote_ident (tableName (qc_table ch)) @ where_text cvs
              @ (case qc_limitValue ch of None \<Rightarrow> [] | Some n \<Rightarrow> '' LIMIT '' @ number_toString n),
      params = map snd cvs\<rparr>"
proof -
  have loop: "cond_loop (qc_conditions ch) [] [] 1
      = (eq_predicates cvs 1, map snd cvs, 1 + int (length cvs))"
    unfolding conds using cond_loop_eq_conds [of 1 cvs "[]" "[]"] len by simp
  show ?thesis
  proof (cases cvs)
    case Nil
    then show ?thesis
      by (simp add: QueryChain_toSQL_def conds ord off where_text_def Let_def
          split: option.splits)
  next
    case (Cons cv cvs1)
    obtain c v where cv: "cv = (c, v)" by (cases cv)
    show ?thesis
    proof (cases cvs1)
      case Nil
      with Cons cv show ?thesis
        by (simp add: QueryChain_toSQL_def conds ord off where_text_def Let_def eq_cond_def
            split: option.splits)
    next
      case (Cons cv' cvs')
      obtain c' v' where cv': "cv' = (c', v')" by (cases cv')
      have len2: "length (qc_conditions ch) = Suc (Suc (length cvs'))"
        using \<open>cvs = cv # cvs1\<close> Cons by (simp add: conds)
      have preds: "eq_predicates cvs 1
          = (quote_ident (columnName c) @ '' = '' @ placeholder 1)
            # (quote_ident (columnName c') @ '' = '' @ placeholder 2) # eq_predicates cvs' 3"
        using \<open>cvs = cv # cvs1\<close> Cons cv cv' by simp
      show ?thesis
        unfolding QueryChain_toSQL_def
        by (simp add: len2 ord off and_cond_def loop Let_def where_text_def preds
            del: cond_loop.simps split: option.splits)
    qed
  qed
qed

text \<open>
  The read through the prototype, on the model: the key \<^verbatim>\<open>constructor\<close> names no column
  of \<^verbatim>\<open>posts\<close>, yet it adds a condition, on the column name \<^verbatim>\<open>undefined\<close>.
\<close>

lemma where_reads_inherited_member:
  \<open>QueryChain_toSQL (model_where posts [(''constructor'', Str ''x'')])
     = \<lparr>sql = ''SELECT * FROM "posts" WHERE "undefined" = $1'', params = [Str ''x'']\<rparr>\<close>
  by (simp add: model_where_def QueryChain_where_def new_QueryChain_def QueryChain_toSQL_def
      object_prototype_keys_def inherited_as_column_def eq_cond_def schema_defs render_defs)

text \<open>
  Claim C6, as stated, fails: a key of \<^verbatim>\<open>attrs\<close> that names no column of the table is
  skipped by the \<^verbatim>\<open>if (column)\<close> guard. For \<^verbatim>\<open>{author: 'ann'}\<close> on \<^verbatim>\<open>posts\<close> the chain has
  no condition, and the statement has no \<^verbatim>\<open>WHERE\<close> clause and no parameter, although
  \<^verbatim>\<open>attrs\<close> has one key.
\<close>

theorem findBy_skips_unknown_key:
  \<open>qc_conditions (model_where posts [(''author'', Str ''ann'')]) = []
   \<and> QueryChain_toSQL (model_where posts [(''author'', Str ''ann'')])
       = \<lparr>sql = ''SELECT * FROM "posts"'', params = []\<rparr>
   \<and> length (params (QueryChain_toSQL (model_where posts [(''author'', Str ''ann'')])))
       \<noteq> length [(''author'', Str ''ann'')]\<close>
  by (simp add: model_where_def QueryChain_where_def new_QueryChain_def QueryChain_toSQL_def
      object_prototype_keys_def schema_defs render_defs)

text \<open>
  Claim C6, amended. Let \<^verbatim>\<open>attrs\<close> have fewer than \<open>2\<^sup>5\<^sup>3\<close> keys, none of which is the
  name of an \<^verbatim>\<open>Object.prototype\<close> member unless the table has a column under it. Then
  \<^verbatim>\<open>where(attrs)\<close> builds one equality condition per supplied key that names a column of
  the table, in the order of the keys, and skips every other key; the compiled statement
  has one predicate \<^verbatim>\<open>"column" = $n\<close> and one parameter for each such key, so one per key
  of \<^verbatim>\<open>attrs\<close> when all its keys are columns. With a gateway bound, \<^verbatim>\<open>findBy(attrs)\<close>
  sends that statement with \<^verbatim>\<open>LIMIT 1\<close> as one \<^verbatim>\<open>query\<close> call and returns an instance of
  the first row, \<^verbatim>\<open>null\<close> when there is no row, or the gateway's error.
\<close>

theorem findBy_equality_per_column_key:
  assumes rt: "tanaDb w = Some rt"
      and own: "\<forall>k \<in> fst ` set attrs. k \<in> set object_prototype_keys \<longrightarrow> k \<in> fst ` set (columns t)"
      and len: "int (length attrs) < 9007199254740992"
  shows "qc_conditions (model_where t attrs)
           = map (\<lambda>(c, v). eq_cond c v) (column_attrs t attrs)
       \<and> QueryChain_toSQL (model_where t attrs)
           = \<lparr>sql = ''SELECT * FROM '' @ quote_ident (tableName t)
                      @ where_text (column_attrs t attrs),
              params = map snd (column_attrs t attrs)\<rparr>
       \<and> length (eq_predicates (column_attrs t attrs) 1) = length (column_attrs t attrs)
       \<and> ((\<forall>k \<in> fst ` set attrs. k \<in> fst ` set (columns t))
            \<longrightarrow> length (column_attrs t attrs) = length attrs)
       \<and> model_findBy t attrs w
           = (case rt_query rt (calls w)
                     (''SELECT * FROM '' @ quote_ident (tableName t)
                        @ where_text (column_attrs t attrs) @ '' LIMIT 1'')
                     (map snd (column_attrs t attrs)) of
                Inl e \<Rightarrow> Inl e
              | Inr [] \<Rightarrow> Inr None
              | Inr (r # _) \<Rightarrow> Inr (Some (createInstance t r True)),
              w\<lparr>calls := calls w @
                   [Query (''SELECT * FROM '' @ quote_ident (tableName t)
                             @ where_text (column_attrs t attrs) @ '' LIMIT 1'')
                          (map snd (column_attrs t attrs))]\<rparr>)"
proof -
  have one: "number_toString 1 = ''1''"
    by (simp add: number_toString_def string_of_nat.simps digit_char_def)
  have conds: "qc_conditions (model_where t attrs)
                 = map (\<lambda>(c, v). eq_cond c v) (column_attrs t attrs)"
    by (simp add: model_where_def QueryChain_where_def new_QueryChain_def
        where_loop_column_attrs [OF own])
  have len': "int (length (column_attrs t attrs)) < 9007199254740992"
    using length_column_attrs [of t attrs] len by linarith
  have a: "QueryChain_toSQL (model_where t attrs)
           = \<lparr>sql = ''SELECT * FROM '' @ quote_ident (tableName t)
                      @ where_text (column_attrs t attrs),
              params = map snd (column_attrs t attrs)\<rparr>"
    using QueryChain_toSQL_eq_conds [OF conds _ _ len']
    by (simp add: model_where_def QueryChain_where_def new_QueryChain_def)
  have b: "QueryChain_toSQL (QueryChain_limit (QueryChain_where (new_QueryChain t) attrs) 1)
           = \<lparr>sql = ''SELECT * FROM '' @ quote_ident (tableName t)
                      @ where_text (column_attrs t attrs) @ '' LIMIT 1'',
              params = map snd (column_attrs t attrs)\<rparr>"
    using QueryChain_toSQL_eq_conds
      [of "QueryChain_limit (QueryChain_where (new_QueryChain t) attrs) 1"
          "column_attrs t attrs", OF _ _ _ len']
    by (simp add: QueryChain_limit_def QueryChain_where_def new_QueryChain_def
        where_loop_column_attrs [OF own] one)
  have c: "model_findBy t attrs w
           = (case rt_query rt (calls w)
                     (''SELECT * FROM '' @ quote_ident (tableName t)
                        @ where_text (column_attrs t attrs) @ '' LIMIT 1'')
                     (map snd (column_attrs t attrs)) of
                Inl e \<Rightarrow> Inl e
              | Inr [] \<Rightarrow> Inr None
              | Inr (r # _) \<Rightarrow> Inr (Some (createInstance t r True)),
              w\<lparr>calls := calls w @
                   [Query (''SELECT * FROM '' @ quote_ident (tableName t)
                             @ where_text (column_attrs t attrs) @ '' LIMIT 1'')
                          (map snd (column_attrs t attrs))]\<rparr>)"
    unfolding model_findBy_def QueryChain_first_def QueryChain_all_def Let_def b
    by (simp add: rt runtime_query_def split: sum.splits list.splits)
  show ?thesis
    using a c column_attrs_all [of attrs t]
    by (simp add: conds length_eq_predicates)
qed

theorem findBy_equality_per_column_key_witness:
  \<open>QueryChain_toSQL (model_where posts [(''published'', Bool True), (''title'', Str ''Hello'')])
       = \<lparr>sql = ''SELECT * FROM "posts" WHERE ("published" = $1 AND "title" = $2)'',
          params = [Bool True, Str ''Hello'']\<rparr>
   \<and> model_findBy posts [(''published'', Bool True), (''title'', Str ''Hello'')]
        \<lparr>tanaDb = Some one_post_runtime, calls = []\<rparr>
       = (Inr (Some (createInstance posts
                  [(''id'', Str ''p1''), (''title'', Str ''Hello''), (''published'', Bool True)] True)),
          \<lparr>tanaDb = Some one_post_runtime,
           calls = [Query ''SELECT * FROM "posts" WHERE ("published" = $1 AND "title" = $2) LIMIT 1''
                      [Bool True, Str ''Hello'']]\<rparr>)\<close>
proof -
  let ?attrs = "[(''published'', Bool True), (''title'', Str ''Hello'')]"
  have rt: "tanaDb \<lparr>tanaDb = Some one_post_runtime, calls = []\<rparr> = Some one_post_runtime"
    by simp
  have own: "\<forall>k \<in> fst ` set ?attrs. k \<in> set object_prototype_keys \<longrightarrow> k \<in> fst ` set (columns posts)"
    by (simp add: object_prototype_keys_def)
  have len: "int (length ?attrs) < 9007199254740992" by simp
  show ?thesis
    using findBy_equality_per_column_key [OF rt own len]
    by (simp add: where_text_def one_post_runtime_def schema_defs render_defs)
qed


section \<open>Identity operations of a model instance\<close>

lemma find_pk_none:
  "\<forall>c \<in> snd ` set cols. \<not> isPrimaryKeyFlag c \<Longrightarrow> find_pk cols attrs = (None, Undefined)"
  by (induction cols) auto

text \<open>
  Claim C8. On an instance whose table has no column with the primary-key flag,
  \<^verbatim>\<open>update()\<close>, \<^verbatim>\<open>destroy()\<close> and \<^verbatim>\<open>reload()\<close> each fail with their
  no-primary-key error; the world is returned as it was, so no gateway call was made, and
  the instance, with its attributes and its persisted flag, is unchanged.
\<close>

theorem no_primary_key_fails_first:
  assumes "\<forall>c \<in> snd ` set (columns (inst_table i)). \<not> isPrimaryKeyFlag c"
  shows "instance_update i attrs w = (Inl (Error ''Cannot update: no primary key defined''), i, w)
       \<and> instance_destroy i w = (Inl (Error ''Cannot delete: no primary key defined''), i, w)
       \<and> instance_reload i w = (Inl (Error ''Cannot reload: no primary key defined''), i, w)"
  using find_pk_none [OF assms]
  by (simp add: instance_update_def instance_destroy_def instance_reload_def Let_def)

theorem no_primary_key_fails_first_witness:
  "instance_update (createInstance memos [(''body'', Str ''x'')] True) [(''body'', Str ''y'')]
        world0
      = (Inl (Error ''Cannot update: no primary key defined''),
         createInstance memos [(''body'', Str ''x'')] True, world0)
   \<and> instance_destroy (createInstance memos [(''body'', Str ''x'')] True) world0
      = (Inl (Error ''Cannot delete: no primary key defined''),
         createInstance memos [(''body'', Str ''x'')] True, world0)
   \<and> instance_reload (createInstance memos [(''body'', Str ''x'')] True) world0
      = (Inl (Error ''Cannot reload: no primary key defined''),
         createInstance memos [(''body'', Str ''x'')] True, world0)"
proof -
  have a: "\<forall>c \<in> snd ` set (columns (inst_table (createInstance memos [(''body'', Str ''x'')] True))).
       \<not> isPrimaryKeyFlag c"
    by (simp add: createInstance_def schema_defs)
  show ?thesis using no_primary_key_fails_first [OF a] by simp
qed

text \<open>
  Claim C9. When \<^verbatim>\<open>reload()\<close> finds the primary key and its select comes back with zero
  rows, it fails with \<^verbatim>\<open>Record not found\<close>, and the instance afterwards is the instance
  before: neither \<^verbatim>\<open>_attributes\<close> nor \<^verbatim>\<open>_persisted\<close> was assigned.
\<close>

theorem reload_not_found_is_atomic:
  assumes pk: "find_pk (columns (inst_table i)) (inst_attributes i) = (Some key, pkValue)"
      and key: "key \<noteq> []"
      and col: "map_of (columns (inst_table i)) key = Some pkColumnBuilder"
      and zero: "SelectQueryBuilder_execute
                   (SelectQueryBuilder_where
                      (SelectQueryBuilder_from (db_select None) (inst_table i))
                      (eq_cond pkColumnBuilder pkValue)) w = (Inr [], w')"
  shows "instance_reload i w = (Inl (Error ''Record not found''), i, w')"
  using assms by (simp add: instance_reload_def Let_def)

theorem reload_not_found_is_atomic_witness:
  \<open>instance_reload post1 world0 =
     (Inl (Error ''Record not found''), post1,
      world0\<lparr>calls := [Query ''SELECT * FROM "posts" WHERE "id" = $1'' [Str ''p1'']]\<rparr>)\<close>
proof -
  have pk: "find_pk (columns (inst_table post1)) (inst_attributes post1) = (Some ''id'', Str ''p1'')"
    by (simp add: post1_def createInstance_def schema_defs get_prop_def)
  have key: "''id'' \<noteq> []" by simp
  have col: "map_of (columns (inst_table post1)) ''id'' = Some posts_id"
    by (simp add: post1_def createInstance_def posts_def table_def)
  have zero: \<open>SelectQueryBuilder_execute
                   (SelectQueryBuilder_where
                      (SelectQueryBuilder_from (db_select None) (inst_table post1))
                      (eq_cond posts_id (Str ''p1''))) world0
       = (Inr [], world0\<lparr>calls := [Query ''SELECT * FROM "posts" WHERE "id" = $1'' [Str ''p1'']]\<rparr>)\<close>
    by (simp add: SelectQueryBuilder_execute_def SelectQueryBuilder_toSQL_def
        SelectQueryBuilder_where_def SelectQueryBuilder_from_def db_select_def
        SelectQueryBuilder_select_def new_SelectQueryBuilder_def eq_cond_def
        post1_def createInstance_def world0_def empty_runtime_def runtime_query_def
        schema_defs render_defs)
  show ?thesis by (rule reload_not_found_is_atomic [OF pk key col zero])
qed

section \<open>Deriving a builder leaves its receiver alone\<close>

text \<open>Allocation appends, so a heap after a call extends the heap before it.\<close>

lemma read_obj_prefix:
  "prefix h h' \<Longrightarrow> read_obj h a = Some x \<Longrightarrow> read_obj h' a = Some x"
  by (auto simp: read_obj_def prefix_def nth_append split: if_splits)

lemma read_builder_prefix:
  "prefix h h' \<Longrightarrow> read_builder h a = Some b \<Longrightarrow> read_builder h' a = Some b"
  by (auto simp: read_builder_def dest: read_obj_prefix split: option.splits heap_obj.splits)

lemma read_obj_old: "read_obj h a = Some x \<Longrightarrow> read_obj (h @ zs) a = Some x"
  by (rule read_obj_prefix [of h]) simp_all

lemma snapshot_parts:
  assumes "snapshot h a = Some s"
  obtains t where "read_builder h a = Some t"
    and "read_obj h (o_joins t) = Some (JoinArray (sb_joins s))"
    and "read_obj h (o_orderBy t) = Some (OrderArray (sb_orderBy s))"
    and "read_obj h (o_groupBy t) = Some (ColumnArray (sb_groupBy s))"
    and "sb_from s = o_from t" and "sb_select s = o_select t" and "sb_where s = o_where t"
    and "sb_limit s = o_limit t" and "sb_offset s = o_offset t"
  using assms
  by (auto simp: snapshot_def split: option.splits heap_obj.splits)

lemma snapshot_prefix:
  assumes "prefix h h'" and "snapshot h a = Some s"
  shows "snapshot h' a = Some s"
proof -
  from assms(2) obtain t where t: "read_builder h a = Some t"
    and j: "read_obj h (o_joins t) = Some (JoinArray (sb_joins s))"
    and ob: "read_obj h (o_orderBy t) = Some (OrderArray (sb_orderBy s))"
    and g: "read_obj h (o_groupBy t) = Some (ColumnArray (sb_groupBy s))"
    and flds: "sb_from s = o_from t" "sb_select s = o_select t" "sb_where s = o_where t"
      "sb_limit s = o_limit t" "sb_offset s = o_offset t"
    by (rule snapshot_parts)
  have "snapshot h' a = Some \<lparr>sb_from = o_from t, sb_select = o_select t, sb_where = o_where t,
          sb_joins = sb_joins s, sb_orderBy = sb_orderBy s, sb_groupBy = sb_groupBy s,
          sb_limit = o_limit t, sb_offset = o_offset t\<rparr>"
    unfolding snapshot_def
    using read_builder_prefix [OF assms(1) t] read_obj_prefix [OF assms(1) j]
      read_obj_prefix [OF assms(1) ob] read_obj_prefix [OF assms(1) g]
    by simp
  also have "\<dots> = Some s" using flds by simp
  finally show ?thesis .
qed

lemma toSQL_at_prefix:
  "prefix h h' \<Longrightarrow> snapshot h a = Some s \<Longrightarrow> toSQL_at h' a = toSQL_at h a"
  by (simp add: toSQL_at_def snapshot_prefix)

lemma new_at_eq:
  "new_SelectQueryBuilder_at h =
     (Suc (Suc (Suc (length h))),
      h @ [JoinArray [], OrderArray [], ColumnArray [], BuilderObj (fresh_obj h)])"
  by (simp add: new_SelectQueryBuilder_at_def alloc_def Let_def fresh_obj_def)

lemma assign_new:
  "assign (h @ BuilderObj ob0 # us) (length h) f = h @ BuilderObj (f ob0) # us"
  by (simp add: assign_def read_builder_def read_obj_def nth_append list_update_append)

lemma assign_new3:
  "assign (h @ x # y # z # BuilderObj ob0 # us) (Suc (Suc (Suc (length h)))) f
     = h @ x # y # z # BuilderObj (f ob0) # us"
  using assign_new [of "h @ [x, y, z]" ob0 us f] by simp

lemma read_builder_new3:
  "read_builder (h @ x # y # z # BuilderObj ob0 # us) (Suc (Suc (Suc (length h)))) = Some ob0"
  by (simp add: read_builder_def read_obj_def nth_append)

lemma read_obj_new4:
  "read_obj (h @ [x, y, z, v, u]) (Suc (Suc (Suc (Suc (length h))))) = Some u"
  by (simp add: read_obj_def nth_append)

lemma where_at_frame:
  assumes "snapshot h b = Some s"
  shows "\<exists>b2 h'. where_at h b c = Some (b2, h') \<and> prefix h h'
           \<and> snapshot h' b2 = Some (SelectQueryBuilder_where s c)"
proof -
  from assms obtain t where t: "read_builder h b = Some t"
    and j: "read_obj h (o_joins t) = Some (JoinArray (sb_joins s))"
    and ob: "read_obj h (o_orderBy t) = Some (OrderArray (sb_orderBy s))"
    and g: "read_obj h (o_groupBy t) = Some (ColumnArray (sb_groupBy s))"
    and flds: "sb_from s = o_from t" "sb_select s = o_select t" "sb_where s = o_where t"
      "sb_limit s = o_limit t" "sb_offset s = o_offset t"
    by (rule snapshot_parts)
  show ?thesis
    by (simp add: where_at_def t new_at_eq assign_new3 snapshot_def read_builder_new3
        read_obj_old [OF j] read_obj_old [OF ob] read_obj_old [OF g]
        SelectQueryBuilder_where_def flds)
qed

lemma from_at_frame:
  assumes "snapshot h b = Some s"
  shows "\<exists>b2 h'. from_at h b tbl = Some (b2, h') \<and> prefix h h'
           \<and> snapshot h' b2 = Some (SelectQueryBuilder_from s tbl)"
proof -
  from assms obtain t where t: "read_builder h b = Some t"
    and j: "read_obj h (o_joins t) = Some (JoinArray (sb_joins s))"
    and ob: "read_obj h (o_orderBy t) = Some (OrderArray (sb_orderBy s))"
    and g: "read_obj h (o_groupBy t) = Some (ColumnArray (sb_groupBy s))"
    and flds: "sb_from s = o_from t" "sb_select s = o_select t" "sb_where s = o_where t"
      "sb_limit s = o_limit t" "sb_offset s = o_offset t"
    by (rule snapshot_parts)
  show ?thesis
    by (simp add: from_at_def t new_at_eq assign_new3 snapshot_def read_builder_new3
        read_obj_old [OF j] read_obj_old [OF ob] read_obj_old [OF g]
        SelectQueryBuilder_from_def flds)
qed

lemma select_at_frame:
  assumes "snapshot h b = Some s"
  shows "\<exists>b2 h'. select_at h b cols = Some (b2, h') \<and> prefix h h'
           \<and> snapshot h' b2 = Some (SelectQueryBuilder_select s cols)"
proof -
  from assms obtain t where t: "read_builder h b = Some t"
    and j: "read_obj h (o_joins t) = Some (JoinArray (sb_joins s))"
    and ob: "read_obj h (o_orderBy t) = Some (OrderArray (sb_orderBy s))"
    and g: "read_obj h (o_groupBy t) = Some (ColumnArray (sb_groupBy s))"
    and flds: "sb_from s = o_from t" "sb_select s = o_select t" "sb_where s = o_where t"
      "sb_limit s = o_limit t" "sb_offset s = o_offset t"
    by (rule snapshot_parts)
  show ?thesis
    by (simp add: select_at_def t new_at_eq assign_new3 snapshot_def read_builder_new3
        read_obj_old [OF j] read_obj_old [OF ob] read_obj_old [OF g]
        SelectQueryBuilder_select_def flds)
qed

lemma limit_at_frame:
  assumes "snapshot h b = Some s"
  shows "\<exists>b2 h'. limit_at h b n = Some (b2, h') \<and> prefix h h'
           \<and> snapshot h' b2 = Some (SelectQueryBuilder_limit s n)"
proof -
  from assms obtain t where t: "read_builder h b = Some t"
    and j: "read_obj h (o_joins t) = Some (JoinArray (sb_joins s))"
    and ob: "read_obj h (o_orderBy t) = Some (OrderArray (sb_orderBy s))"
    and g: "read_obj h (o_groupBy t) = Some (ColumnArray (sb_groupBy s))"
    and flds: "sb_from s = o_from t" "sb_select s = o_select t" "sb_where s = o_where t"
      "sb_limit s = o_limit t" "sb_offset s = o_offset t"
    by (rule snapshot_parts)
  show ?thesis
    by (simp add: limit_at_def t new_at_eq assign_new3 snapshot_def read_builder_new3
        read_obj_old [OF j] read_obj_old [OF ob] read_obj_old [OF g]
        SelectQueryBuilder_limit_def flds)
qed

lemma offset_at_frame:
  assumes "snapshot h b = Some s"
  shows "\<exists>b2 h'. offset_at h b n = Some (b2, h') \<and> prefix h h'
           \<and> snapshot h' b2 = Some (SelectQueryBuilder_offset s n)"
proof -
  from assms obtain t where t: "read_builder h b = Some t"
    and j: "read_obj h (o_joins t) = Some (JoinArray (sb_joins s))"
    and ob: "read_obj h (o_orderBy t) = Some (OrderArray (sb_orderBy s))"
    and g: "read_obj h (o_groupBy t) = Some (ColumnArray (sb_groupBy s))"
    and flds: "sb_from s = o_from t" "sb_select s = o_select t" "sb_where s = o_where t"
      "sb_limit s = o_limit t" "sb_offset s = o_offset t"
    by (rule snapshot_parts)
  show ?thesis
    by (simp add: offset_at_def t new_at_eq assign_new3 snapshot_def read_builder_new3
        read_obj_old [OF j] read_obj_old [OF ob] read_obj_old [OF g]
        SelectQueryBuilder_offset_def flds)
qed

lemma join_at_frame:
  assumes "snapshot h b = Some s"
  shows "\<exists>b2 h'. join_at h b ty tbl c = Some (b2, h') \<and> prefix h h'
           \<and> snapshot h' b2 = Some (add_join s ty tbl c)"
proof -
  from assms obtain t where t: "read_builder h b = Some t"
    and j: "read_obj h (o_joins t) = Some (JoinArray (sb_joins s))"
    and ob: "read_obj h (o_orderBy t) = Some (OrderArray (sb_orderBy s))"
    and g: "read_obj h (o_groupBy t) = Some (ColumnArray (sb_groupBy s))"
    and flds: "sb_from s = o_from t" "sb_select s = o_select t" "sb_where s = o_where t"
      "sb_limit s = o_limit t" "sb_offset s = o_offset t"
    by (rule snapshot_parts)
  show ?thesis
    by (simp add: join_at_def t new_at_eq alloc_def assign_new3 snapshot_def read_builder_new3
        read_obj_new4 read_obj_old [OF j] read_obj_old [OF ob] read_obj_old [OF g]
        add_join_def flds)
qed

lemma groupBy_at_frame:
  assumes "snapshot h b = Some s"
  shows "\<exists>b2 h'. groupBy_at h b cols = Some (b2, h') \<and> prefix h h'
           \<and> snapshot h' b2 = Some (SelectQueryBuilder_groupBy s cols)"
proof -
  from assms obtain t where t: "read_builder h b = Some t"
    and j: "read_obj h (o_joins t) = Some (JoinArray (sb_joins s))"
    and ob: "read_obj h (o_orderBy t) = Some (OrderArray (sb_orderBy s))"
    and g: "read_obj h (o_groupBy t) = Some (ColumnArray (sb_groupBy s))"
    and flds: "sb_from s = o_from t" "sb_select s = o_select t" "sb_where s = o_where t"
      "sb_limit s = o_limit t" "sb_offset s = o_offset t"
    by (rule snapshot_parts)
  show ?thesis
    by (simp add: groupBy_at_def t new_at_eq alloc_def assign_new3 snapshot_def read_builder_new3
        read_obj_new4 read_obj_old [OF j] read_obj_old [OF ob] read_obj_old [OF g]
        SelectQueryBuilder_groupBy_def flds)
qed

lemma orderBy_at_frame:
  assumes "snapshot h b = Some s"
  shows "\<exists>r h'. orderBy_at h b orders = Some (r, h') \<and> prefix h h'
           \<and> (case r of
                 Inl e \<Rightarrow> SelectQueryBuilder_orderBy s orders = Inl e
               | Inr b2 \<Rightarrow> \<exists>s2. snapshot h' b2 = Some s2
                              \<and> SelectQueryBuilder_orderBy s orders = Inr s2)"
proof -
  from assms obtain t where t: "read_builder h b = Some t"
    and j: "read_obj h (o_joins t) = Some (JoinArray (sb_joins s))"
    and ob: "read_obj h (o_orderBy t) = Some (OrderArray (sb_orderBy s))"
    and g: "read_obj h (o_groupBy t) = Some (ColumnArray (sb_groupBy s))"
    and flds: "sb_from s = o_from t" "sb_select s = o_select t" "sb_where s = o_where t"
      "sb_limit s = o_limit t" "sb_offset s = o_offset t"
    by (rule snapshot_parts)
  show ?thesis
  proof (cases "map_orders orders")
    case (Inl e)
    then show ?thesis
      by (simp add: orderBy_at_def t new_at_eq assign_new3 SelectQueryBuilder_orderBy_def)
  next
    case (Inr os)
    then show ?thesis
      by (simp add: orderBy_at_def t new_at_eq alloc_def assign_new3 snapshot_def
          read_builder_new3 read_obj_new4 read_obj_old [OF j] read_obj_old [OF ob]
          read_obj_old [OF g] SelectQueryBuilder_orderBy_def flds)
  qed
qed

text \<open>
  Claim C3. Let \<open>b\<close> be a live select builder, read from the heap as \<open>s\<close>. Each chain
  call (\<^verbatim>\<open>where\<close>, \<^verbatim>\<open>orderBy\<close>, \<^verbatim>\<open>groupBy\<close>, \<^verbatim>\<open>innerJoin\<close>, \<^verbatim>\<open>leftJoin\<close>, \<^verbatim>\<open>rightJoin\<close>,
  \<^verbatim>\<open>limit\<close>, \<^verbatim>\<open>offset\<close>, \<^verbatim>\<open>select\<close>) returns, the derived builder it allocates is the
  receiver with the one field changed, and \<^verbatim>\<open>toSQL()\<close> of the receiver in the heap after
  the call gives exactly what it gave before: the same statement text and parameters, or
  the same error when no table is bound. When \<^verbatim>\<open>orderBy\<close> throws, the receiver is
  unchanged as well.
\<close>

theorem chain_calls_leave_receiver_unchanged:
  assumes live: "snapshot h b = Some s"
  shows "toSQL_at h b = Some (SelectQueryBuilder_toSQL s)
   \<and> (\<exists>b2 h'. where_at h b c = Some (b2, h')
         \<and> snapshot h' b2 = Some (SelectQueryBuilder_where s c)
         \<and> toSQL_at h' b = toSQL_at h b)
   \<and> (\<exists>r h'. orderBy_at h b orders = Some (r, h')
         \<and> (case r of
               Inl e \<Rightarrow> SelectQueryBuilder_orderBy s orders = Inl e
             | Inr b2 \<Rightarrow> \<exists>s2. snapshot h' b2 = Some s2
                            \<and> SelectQueryBuilder_orderBy s orders = Inr s2)
         \<and> toSQL_at h' b = toSQL_at h b)
   \<and> (\<exists>b2 h'. groupBy_at h b cols = Some (b2, h')
         \<and> snapshot h' b2 = Some (SelectQueryBuilder_groupBy s cols)
         \<and> toSQL_at h' b = toSQL_at h b)
   \<and> (\<exists>b2 h'. innerJoin_at h b tbl c = Some (b2, h')
         \<and> snapshot h' b2 = Some (SelectQueryBuilder_innerJoin s tbl c)
         \<and> toSQL_at h' b = toSQL_at h b)
   \<and> (\<exists>b2 h'. leftJoin_at h b tbl c = Some (b2, h')
         \<and> snapshot h' b2 = Some (SelectQueryBuilder_leftJoin s tbl c)
         \<and> toSQL_at h' b = toSQL_at h b)
   \<and> (\<exists>b2 h'. rightJoin_at h b tbl c = Some (b2, h')
         \<and> snapshot h' b2 = Some (SelectQueryBuilder_rightJoin s tbl c)
         \<and> toSQL_at h' b = toSQL_at h b)
   \<and> (\<exists>b2 h'. limit_at h b n = Some (b2, h')
         \<and> snapshot h' b2 = Some (SelectQueryBuilder_limit s n)
         \<and> toSQL_at h' b = toSQL_at h b)
   \<and> (\<exists>b2 h'. offset_at h b n = Some (b2, h')
         \<and> snapshot h' b2 = Some (SelectQueryBuilder_offset s n)
         \<and> toSQL_at h' b = toSQL_at h b)
   \<and> (\<exists>b2 h'. select_at h b sel = Some (b2, h')
         \<and> snapshot h' b2 = Some (SelectQueryBuilder_select s sel)
         \<and> toSQL_at h' b = toSQL_at h b)"
proof -
  have keep: "prefix h h' \<Longrightarrow> toSQL_at h' b = toSQL_at h b" for h'
    using live by (rule toSQL_at_prefix [rotated])
  have c0: "toSQL_at h b = Some (SelectQueryBuilder_toSQL s)"
    by (simp add: toSQL_at_def live)
  have c1: "\<exists>b2 h'. where_at h b c = Some (b2, h')
         \<and> snapshot h' b2 = Some (SelectQueryBuilder_where s c)
         \<and> toSQL_at h' b = toSQL_at h b"
    using where_at_frame [OF live, of c] keep by blast
  have c2: "\<exists>r h'. orderBy_at h b orders = Some (r, h')
         \<and> (case r of
               Inl e \<Rightarrow> SelectQueryBuilder_orderBy s orders = Inl e
             | Inr b2 \<Rightarrow> \<exists>s2. snapshot h' b2 = Some s2
                            \<and> SelectQueryBuilder_orderBy s orders = Inr s2)
         \<and> toSQL_at h' b = toSQL_at h b"
    using orderBy_at_frame [OF live, of orders] keep by blast
  have c3: "\<exists>b2 h'. groupBy_at h b cols = Some (b2, h')
         \<and> snapshot h' b2 = Some (SelectQueryBuilder_groupBy s cols)
         \<and> toSQL_at h' b = toSQL_at h b"
    using groupBy_at_frame [OF live, of cols] keep by blast
  have c4: "\<exists>b2 h'. innerJoin_at h b tbl c = Some (b2, h')
         \<and> snapshot h' b2 = Some (SelectQueryBuilder_innerJoin s tbl c)
         \<and> toSQL_at h' b = toSQL_at h b"
    unfolding innerJoin_at_def SelectQueryBuilder_innerJoin_def
    using join_at_frame [OF live, of Inner tbl c] keep by blast
  have c5: "\<exists>b2 h'. leftJoin_at h b tbl c = Some (b2, h')
         \<and> snapshot h' b2 = Some (SelectQueryBuilder_leftJoin s tbl c)
         \<and> toSQL_at h' b = toSQL_at h b"
    unfolding leftJoin_at_def SelectQueryBuilder_leftJoin_def
    using join_at_frame [OF live, of Left tbl c] keep by blast
  have c6: "\<exists>b2 h'. rightJoin_at h b tbl c = Some (b2, h')
         \<and> snapshot h' b2 = Some (SelectQueryBuilder_rightJoin s tbl c)
         \<and> toSQL_at h' b = toSQL_at h b"
    unfolding rightJoin_at_def SelectQueryBuilder_rightJoin_def
    using join_at_frame [OF live, of Right tbl c] keep by blast
  have c7: "\<exists>b2 h'. limit_at h b n = Some (b2, h')
         \<and> snapshot h' b2 = Some (SelectQueryBuilder_limit s n)
         \<and> toSQL_at h' b = toSQL_at h b"
    using limit_at_frame [OF live, of n] keep by blast
  have c8: "\<exists>b2 h'. offset_at h b n = Some (b2, h')
         \<and> snapshot h' b2 = Some (SelectQueryBuilder_offset s n)
         \<and> toSQL_at h' b = toSQL_at h b"
    using offset_at_frame [OF live, of n] keep by blast
  have c9: "\<exists>b2 h'. select_at h b sel = Some (b2, h')
         \<and> snapshot h' b2 = Some (SelectQueryBuilder_select s sel)
         \<and> toSQL_at h' b = toSQL_at h b"
    using select_at_frame [OF live, of sel] keep by blast
  from c0 c1 c2 c3 c4 c5 c6 c7 c8 c9 show ?thesis by (intro conjI)
qed

theorem chain_calls_leave_receiver_unchanged_witness:
  \<open>snapshot posts_heap 3 = Some (SelectQueryBuilder_from (db_select None) posts)
   \<and> (\<exists>b2 h'. where_at posts_heap 3 (eq_cond posts_published (Bool True)) = Some (b2, h')
         \<and> toSQL_at h' b2
             = Some (Inr \<lparr>sql = ''SELECT * FROM "posts" WHERE "published" = $1'',
                          params = [Bool True]\<rparr>)
         \<and> toSQL_at h' 3 = Some (Inr \<lparr>sql = ''SELECT * FROM "posts"'', params = []\<rparr>))\<close>
proof -
  let ?s = "SelectQueryBuilder_from (db_select None) posts"
  let ?c = "eq_cond posts_published (Bool True)"
  have live: "snapshot posts_heap 3 = Some ?s"
    by (simp add: snapshot_def posts_heap_def read_builder_def read_obj_def
        SelectQueryBuilder_from_def db_select_def SelectQueryBuilder_select_def
        new_SelectQueryBuilder_def)
  have before: \<open>SelectQueryBuilder_toSQL ?s = Inr \<lparr>sql = ''SELECT * FROM "posts"'', params = []\<rparr>\<close>
    by (simp add: SelectQueryBuilder_toSQL_def SelectQueryBuilder_from_def db_select_def
        SelectQueryBuilder_select_def new_SelectQueryBuilder_def schema_defs render_defs)
  have derived: \<open>SelectQueryBuilder_toSQL (SelectQueryBuilder_where ?s ?c)
      = Inr \<lparr>sql = ''SELECT * FROM "posts" WHERE "published" = $1'', params = [Bool True]\<rparr>\<close>
    by (simp add: SelectQueryBuilder_toSQL_def SelectQueryBuilder_where_def
        SelectQueryBuilder_from_def db_select_def SelectQueryBuilder_select_def
        new_SelectQueryBuilder_def eq_cond_def schema_defs render_defs)
  from chain_calls_leave_receiver_unchanged [OF live, of ?c]
  obtain b2 h' where w: "where_at posts_heap 3 ?c = Some (b2, h')"
    and d: "snapshot h' b2 = Some (SelectQueryBuilder_where ?s ?c)"
    and k: "toSQL_at h' 3 = toSQL_at posts_heap 3"
    and t0: "toSQL_at posts_heap 3 = Some (SelectQueryBuilder_toSQL ?s)"
    by blast
  show ?thesis
    using live w d k t0 before derived by (simp add: toSQL_at_def)
qed

end
